theory Spec2Isabelle
  imports Complex_Main
begin

section \<open>Forest MCP client node: the adaptation layer\<close>

text \<open>
  A shallow embedding of the functions of \<^verbatim>\<open>nodes/Forest/utils.ts\<close>, of the list
  search \<^verbatim>\<open>getTools\<close>, of the resource mapping \<^verbatim>\<open>getToolParameters\<close> and of
  \<^verbatim>\<open>Forest.execute\<close>. Promises are modelled by their settled outcome: a rejection or
  a thrown value is a value of a sum type, \<open>await\<close> is sequencing. What the node gets
  from outside (the credential store, the URL constructor, the transport, the remote
  session) is a parameter of the model.
\<close>

subsection \<open>Strings\<close>

text \<open>
  A string is a list of code units; the model covers the code units below 256, which
  is what \<^typ>\<open>char\<close> holds. \<open>isWhiteSpace\<close> lists the white space and line
  terminators that \<^verbatim>\<open>String.prototype.trim\<close> strips in that range: TAB, LF, VT, FF, CR,
  SPACE and NBSP.
\<close>

definition isWhiteSpace :: "char \<Rightarrow> bool" where
  "isWhiteSpace c =
     (c \<in> set [CHR 0x09, CHR 0x0A, CHR 0x0B, CHR 0x0C, CHR 0x0D, CHR 0x20, CHR 0xA0])"

definition trim :: "string \<Rightarrow> string" where
  "trim s = rev (dropWhile isWhiteSpace (rev (dropWhile isWhiteSpace s)))"

definition startsWith :: "string \<Rightarrow> string \<Rightarrow> bool" where
  "startsWith s p = (take (length p) s = p)"

definition endsWith :: "string \<Rightarrow> string \<Rightarrow> bool" where
  "endsWith s p = (length p \<le> length s \<and> drop (length s - length p) s = p)"

fun includes_str :: "string \<Rightarrow> string \<Rightarrow> bool" where
  "includes_str [] p = (p = [])"
| "includes_str (c # cs) p = (startsWith (c # cs) p \<or> includes_str cs p)"

text \<open>\<^verbatim>\<open>Number.prototype.toString\<close> on a natural number: its decimal digits.\<close>

function toString :: "nat \<Rightarrow> string" where
  "toString n =
     (if n < 10 then [''0123456789'' ! n]
      else toString (n div 10) @ [''0123456789'' ! (n mod 10)])"
  by pat_completeness auto
termination
  by (relation "measure id") auto

declare toString.simps [simp del]

text \<open>
  The truthiness of an optional string: \<^verbatim>\<open>undefined\<close> and the empty string are falsy.
\<close>

fun truthy :: "string option \<Rightarrow> bool" where
  "truthy None = False"
| "truthy (Some s) = (s \<noteq> [])"

subsection \<open>Thrown values and results\<close>

text \<open>
  The value of \<^verbatim>\<open>Number(error.code)\<close>: a real number, or \<open>NonFinite\<close> for
  \<^verbatim>\<open>NaN\<close> and the infinities, which are equal to no status code.
\<close>

datatype jsnumber = NonFinite | Finite real

datatype codeProperty = NoCode | Code jsnumber

datatype messageProperty = NoMessage | NonStringMessage | StringMessage string

text \<open>
  A thrown value, as far as \<^verbatim>\<open>errorHasCode\<close> looks at it. \<open>NonObject\<close> is every
  value that fails \<^verbatim>\<open>!!error && typeof error === 'object'\<close>: \<^verbatim>\<open>undefined\<close>,
  \<^verbatim>\<open>null\<close>, a string, a number, a boolean, a function. An object is given by its
  \<^verbatim>\<open>code\<close> property (absent, or present with the number that \<^verbatim>\<open>Number\<close> makes of
  it) and its \<^verbatim>\<open>message\<close> property (absent, not a string, or a string).
\<close>

datatype thrown = NonObject | ErrorObject codeProperty messageProperty

datatype ('t, 'e) Result = ResultOk 't | ResultError 'e

definition createResultOk :: "'t \<Rightarrow> ('t, 'e) Result" where
  "createResultOk result = ResultOk result"

definition createResultError :: "'e \<Rightarrow> ('t, 'e) Result" where
  "createResultError error = ResultError error"

subsection \<open>Session connector\<close>

text \<open>
  The test \<^verbatim>\<open>/^https?:\/\//i.test(input)\<close>. Without the \<^verbatim>\<open>u\<close> flag, ignoring case
  compares the upper-case forms of the code units, and a code unit from 128 on never
  takes an upper-case form below 128; so only the letters a to z are mapped here.
\<close>

definition canonicalize :: "char \<Rightarrow> char" where
  "canonicalize c =
     (case map_of (zip ''abcdefghijklmnopqrstuvwxyz'' ''ABCDEFGHIJKLMNOPQRSTUVWXYZ'') c of
        Some u \<Rightarrow> u
      | None \<Rightarrow> c)"

definition hasHttpScheme :: "string \<Rightarrow> bool" where
  "hasHttpScheme input =
     (let s = map canonicalize input
      in startsWith s ''HTTP://'' \<or> startsWith s ''HTTPS://'')"

definition withProtocol :: "string \<Rightarrow> string" where
  "withProtocol input = (if \<not> hasHttpScheme input then ''https://'' @ input else input)"

text \<open>
  \<open>parseUrl\<close> is the constructor \<^verbatim>\<open>new URL(...)\<close>: it returns a URL or throws.
\<close>

definition normalizeAndValidateUrl ::
    "(string \<Rightarrow> thrown + 'url) \<Rightarrow> string \<Rightarrow> ('url, thrown) Result" where
  "normalizeAndValidateUrl parseUrl input =
     (case parseUrl (withProtocol input) of
        Inr url \<Rightarrow> createResultOk url
      | Inl error \<Rightarrow> createResultError error)"

fun errorHasCode :: "thrown \<Rightarrow> nat \<Rightarrow> bool" where
  "errorHasCode NonObject code = False"
| "errorHasCode (ErrorObject c m) code =
     ((case c of NoCode \<Rightarrow> False | Code n \<Rightarrow> n = Finite (real code))
      \<or> (case m of StringMessage s \<Rightarrow> includes_str s (toString code) | _ \<Rightarrow> False))"

definition isUnauthorizedError :: "thrown \<Rightarrow> bool" where
  "isUnauthorizedError error = errorHasCode error 401"

definition isForbiddenError :: "thrown \<Rightarrow> bool" where
  "isForbiddenError error = errorHasCode error 403"

definition isNotFoundError :: "thrown \<Rightarrow> bool" where
  "isNotFoundError error = errorHasCode error 404"

datatype ConnectMcpClientError =
    invalid_url thrown
  | connection thrown
  | auth thrown
  | not_found thrown

text \<open>
  A \<^verbatim>\<open>NodeOperationError\<close>: its message, the error it wraps (if it wraps one) and
  the \<^verbatim>\<open>itemIndex\<close> option.
\<close>

datatype NodeOperationError = NodeOperationError string "thrown option" "nat option"

fun mapToNodeOperationError :: "ConnectMcpClientError \<Rightarrow> NodeOperationError" where
  "mapToNodeOperationError (invalid_url e) =
     NodeOperationError
       ''Could not connect to your Forest MCP server. The provided URL is invalid.''
       (Some e) None"
| "mapToNodeOperationError (auth e) =
     NodeOperationError
       ''Could not connect to your Forest MCP server. Authentication failed.''
       (Some e) None"
| "mapToNodeOperationError (not_found e) =
     NodeOperationError
       (''MCP server not found. The MCP server has not been setup on your Forest agent. ''
        @ ''See https://docs.forestadmin.com/developer-guide-agents-nodejs/''
        @ ''agent-customization/ai/mcp-server'')
       (Some e) None"
| "mapToNodeOperationError (connection e) =
     NodeOperationError ''Could not connect to your Forest MCP server'' (Some e) None"

text \<open>
  \<open>connect url headers name version\<close> stands for building the client and the
  streamable HTTP transport and awaiting \<^verbatim>\<open>client.connect(transport)\<close>: the live client,
  or what was thrown. It is not called when the URL is invalid.
\<close>

definition connectMcpClient ::
    "(string \<Rightarrow> thrown + 'url)
     \<Rightarrow> ('url \<Rightarrow> (string \<times> string) list option \<Rightarrow> string \<Rightarrow> string \<Rightarrow> thrown + 'client)
     \<Rightarrow> (string \<times> string) list option \<Rightarrow> string \<Rightarrow> string \<Rightarrow> nat
     \<Rightarrow> ('client, ConnectMcpClientError) Result" where
  "connectMcpClient parseUrl connect hdrs endpoint name version =
     (case normalizeAndValidateUrl parseUrl endpoint of
        ResultError e \<Rightarrow> createResultError (invalid_url e)
      | ResultOk url \<Rightarrow>
          (case connect url hdrs name (toString version) of
             Inr client \<Rightarrow> createResultOk client
           | Inl error \<Rightarrow>
               if isUnauthorizedError error \<or> isForbiddenError error
               then createResultError (auth error)
               else if isNotFoundError error
               then createResultError (not_found error)
               else createResultError (connection error)))"

subsection \<open>Credential resolver\<close>

record OAuthTokenData =
  access_token :: "string option"
  refresh_token :: "string option"
  expires_in :: "real option"

text \<open>
  What \<^verbatim>\<open>getCredentials\<close> resolves to, read through the fields the resolver uses; an
  absent field is \<open>None\<close>.
\<close>

record CredentialData =
  serverUrl :: "string option"
  token :: "string option"
  oauthTokenData :: "OAuthTokenData option"

text \<open>The returned object; \<^verbatim>\<open>{}\<close> is \<open>emptyEndpoint\<close>.\<close>

record ResolvedEndpoint =
  headers :: "(string \<times> string) list option"
  endpointUrl :: "string option"

definition emptyEndpoint :: ResolvedEndpoint where
  "emptyEndpoint = \<lparr>headers = None, endpointUrl = None\<rparr>"

text \<open>\<^verbatim>\<open>x?.trim() || ''\<close> for an optional string \<open>x\<close>.\<close>

definition trimOrEmpty :: "string option \<Rightarrow> string" where
  "trimOrEmpty x = (case x of None \<Rightarrow> [] | Some s \<Rightarrow> trim s)"

text \<open>
  \<open>getCredentials name\<close> is the awaited \<^verbatim>\<open>ctx.getCredentials(name)\<close>: it rejects
  (\<open>Inl\<close>), or resolves to nothing (\<open>Inr None\<close>) or to a credential record. The
  \<^verbatim>\<open>switch\<close> sends every authentication other than \<^verbatim>\<open>'bearerAuth'\<close> to the OAuth2
  branch (\<^verbatim>\<open>default\<close>). In that branch a rejection is also written to the console.
\<close>

definition getAuthHeadersAndEndpoint ::
    "(string \<Rightarrow> thrown + CredentialData option) \<Rightarrow> string \<Rightarrow> ResolvedEndpoint" where
  "getAuthHeadersAndEndpoint getCredentials authentication =
     (if authentication = ''bearerAuth'' then
        (case getCredentials ''forestMcpApi'' of
           Inl _ \<Rightarrow> emptyEndpoint
         | Inr None \<Rightarrow> emptyEndpoint
         | Inr (Some result) \<Rightarrow>
             (let serverUrl' = trimOrEmpty (serverUrl result);
                  endpointUrl' =
                    (if endsWith serverUrl' ''/mcp'' then serverUrl' else serverUrl' @ ''/mcp'');
                  token' = trimOrEmpty (token result)
              in if token' = [] then emptyEndpoint
                 else \<lparr>headers = Some [(''Authorization'', ''Bearer '' @ token')],
                       endpointUrl = Some endpointUrl'\<rparr>))
      else
        (case getCredentials ''forestMcpOAuth2Api'' of
           Inl _ \<Rightarrow> emptyEndpoint
         | Inr None \<Rightarrow> emptyEndpoint
         | Inr (Some result) \<Rightarrow>
             (let serverUrl' = trimOrEmpty (serverUrl result);
                  endpointUrl' =
                    (if endsWith serverUrl' ''/mcp'' then serverUrl' else serverUrl' @ ''/mcp'');
                  accessToken = trimOrEmpty (Option.bind (oauthTokenData result) access_token)
              in if accessToken = [] then emptyEndpoint
                 else \<lparr>headers = Some [(''Authorization'', ''Bearer '' @ accessToken)],
                       endpointUrl = Some endpointUrl'\<rparr>)))"

subsection \<open>Parameter trees and \<open>cleanParameters\<close>\<close>

text \<open>
  A parameter tree: \<^verbatim>\<open>undefined\<close>, \<^verbatim>\<open>null\<close>, a primitive leaf (a string, a number, a
  boolean; the type of leaves is left open), an array, or an object. An object is given
  by its prototype and by its own enumerable entries in the order of
  \<^verbatim>\<open>Object.entries\<close>, each key once. \<open>ObjectPrototype\<close> is \<^verbatim>\<open>Object.prototype\<close>, the
  prototype of an object literal and of what \<^verbatim>\<open>JSON.parse\<close> returns; an own key
  \<^verbatim>\<open>__proto__\<close>, which \<^verbatim>\<open>JSON.parse\<close> can create, is an entry like any other.
\<close>

datatype 'a tree =
    Undefined
  | Null
  | Leaf 'a
  | Arr "'a tree list"
  | Obj "'a prototype" "(string \<times> 'a tree) list"
and 'a prototype = ObjectPrototype | NullPrototype | Prototype "'a tree"

text \<open>
  \<^verbatim>\<open>typeof v === 'object' && v !== null && !Array.isArray(v) && Object.keys(v).length === 0\<close>:
  an object without own keys, whatever its prototype.
\<close>

fun isEmptyObject :: "'a tree \<Rightarrow> bool" where
  "isEmptyObject (Obj p es) = (es = [])"
| "isEmptyObject _ = False"

text \<open>
  The assignment \<^verbatim>\<open>cleaned[key] = cleanedValue\<close> on the object \<open>cleaned\<close>, given by
  its prototype and entries. The keys of \<^verbatim>\<open>Object.entries\<close> are distinct, so an
  ordinary key is new to \<open>cleaned\<close> and the assignment adds the entry at the end.
  The key \<^verbatim>\<open>__proto__\<close> is not an own property of \<open>cleaned\<close>, which still has the
  prototype \<^verbatim>\<open>Object.prototype\<close> when this key comes; the assignment therefore runs the
  setter of the accessor \<^verbatim>\<open>Object.prototype.__proto__\<close>: an object, an array or
  \<^verbatim>\<open>null\<close> becomes the prototype of \<open>cleaned\<close>, any other value is ignored, and no
  entry is added. A later ordinary key is added as an own entry also when the new
  prototype has a property of that name, which is a writable data property.
\<close>

fun assign ::
    "'a prototype \<times> (string \<times> 'a tree) list \<Rightarrow> string \<Rightarrow> 'a tree
     \<Rightarrow> 'a prototype \<times> (string \<times> 'a tree) list" where
  "assign (p, es) key v =
     (if key = ''__proto__'' then
        (case v of
           Obj q fs \<Rightarrow> (Prototype v, es)
         | Arr xs \<Rightarrow> (Prototype v, es)
         | Null \<Rightarrow> (NullPrototype, es)
         | _ \<Rightarrow> (p, es))
      else (p, es @ [(key, v)]))"

text \<open>
  \<open>cleanEntries\<close> is the \<^verbatim>\<open>for (const [key, value] of Object.entries(obj))\<close> loop on
  the fresh object \<open>cleaned\<close>, which starts as \<^verbatim>\<open>{}\<close>: an entry is assigned unless
  its cleaned value is \<^verbatim>\<open>undefined\<close> or an object that is not an array and has no own
  keys. The prototype of the argument is not read.
\<close>

fun cleanParameters :: "'a tree \<Rightarrow> 'a tree"
  and cleanEntries ::
    "(string \<times> 'a tree) list \<Rightarrow> 'a prototype \<times> (string \<times> 'a tree) list
     \<Rightarrow> 'a prototype \<times> (string \<times> 'a tree) list" where
  "cleanParameters Undefined = Undefined"
| "cleanParameters Null = Null"
| "cleanParameters (Arr xs) =
     Arr (filter (\<lambda>item. item \<noteq> Undefined) (map cleanParameters xs))"
| "cleanParameters (Obj p kvs) =
     (case cleanEntries kvs (ObjectPrototype, []) of (p', es) \<Rightarrow> Obj p' es)"
| "cleanParameters (Leaf a) = Leaf a"
| "cleanEntries [] cleaned = cleaned"
| "cleanEntries ((key, v) # rest) cleaned =
     (let cleanedValue = cleanParameters v in
      if cleanedValue \<noteq> Undefined then
        (if isEmptyObject cleanedValue then cleanEntries rest cleaned
         else cleanEntries rest (assign cleaned key cleanedValue))
      else cleanEntries rest cleaned)"

text \<open>
  What a cleaned tree looks like, at every depth: no entry of an object holds
  \<^verbatim>\<open>undefined\<close> or an empty object, no element of an array is \<^verbatim>\<open>undefined\<close>.
\<close>

fun wellCleaned :: "'a tree \<Rightarrow> bool" where
  "wellCleaned (Arr xs) = list_all (\<lambda>x. x \<noteq> Undefined \<and> wellCleaned x) xs"
| "wellCleaned (Obj p kvs) =
     list_all (\<lambda>kv. snd kv \<noteq> Undefined \<and> \<not> isEmptyObject (snd kv) \<and> wellCleaned (snd kv)) kvs"
| "wellCleaned _ = True"

text \<open>
  A plain tree: every object has the prototype \<^verbatim>\<open>Object.prototype\<close> and no own key
  \<^verbatim>\<open>__proto__\<close>. \<open>ordinaryKeys\<close> asks the second only. \<open>resetPrototypes\<close> gives
  every object of a tree the prototype \<^verbatim>\<open>Object.prototype\<close> and keeps the entries.
\<close>

fun plain :: "'a tree \<Rightarrow> bool" where
  "plain (Arr xs) = list_all plain xs"
| "plain (Obj p kvs) =
     (p = ObjectPrototype \<and> list_all (\<lambda>kv. fst kv \<noteq> ''__proto__'' \<and> plain (snd kv)) kvs)"
| "plain _ = True"

fun resetPrototypes :: "'a tree \<Rightarrow> 'a tree" where
  "resetPrototypes (Arr xs) = Arr (map resetPrototypes xs)"
| "resetPrototypes (Obj p kvs) =
     Obj ObjectPrototype (map (\<lambda>kv. (fst kv, resetPrototypes (snd kv))) kvs)"
| "resetPrototypes t = t"

fun ordinaryKeys :: "'a tree \<Rightarrow> bool" where
  "ordinaryKeys (Arr xs) = list_all ordinaryKeys xs"
| "ordinaryKeys (Obj p kvs) =
     list_all (\<lambda>kv. fst kv \<noteq> ''__proto__'' \<and> ordinaryKeys (snd kv)) kvs"
| "ordinaryKeys _ = True"

subsection \<open>Remote session\<close>

text \<open>
  The calls made on a client, in order. A client is known by this history; the server
  it talks to is a function from the history so far (and the arguments of the call)
  to the answer, which covers every deterministic session.
\<close>

datatype event = ListToolsCall "string option" | CallToolCall string | CloseCall

record 'tool ListToolsResult =
  tools :: "'tool list"
  nextCursor :: "string option"

record ('tool, 'args, 'res) McpServer =
  listToolsResponse :: "event list \<Rightarrow> string option \<Rightarrow> thrown + 'tool ListToolsResult"
  callToolResponse :: "event list \<Rightarrow> string \<Rightarrow> 'args \<Rightarrow> real option \<Rightarrow> thrown + 'res"
  closeResponse :: "event list \<Rightarrow> thrown option"

definition listTools ::
    "('tool, 'args, 'res) McpServer \<Rightarrow> event list \<Rightarrow> string option
     \<Rightarrow> (thrown + 'tool ListToolsResult) \<times> event list" where
  "listTools srv h cursor = (listToolsResponse srv h cursor, h @ [ListToolsCall cursor])"

definition callTool ::
    "('tool, 'args, 'res) McpServer \<Rightarrow> event list \<Rightarrow> string \<Rightarrow> 'args \<Rightarrow> real option
     \<Rightarrow> (thrown + 'res) \<times> event list" where
  "callTool srv h name args timeout =
     (callToolResponse srv h name args timeout, h @ [CallToolCall name])"

definition close ::
    "('tool, 'args, 'res) McpServer \<Rightarrow> event list \<Rightarrow> thrown option \<times> event list" where
  "close srv h = (closeResponse srv h, h @ [CloseCall])"

subsection \<open>Tool catalog fetcher\<close>

text \<open>
  \<open>getAllTools\<close> follows the next cursors for as long as the server gives one, so it
  need not return: \<open>None\<close> is the run that goes on for ever. \<open>clientListTools\<close> is
  the \<^verbatim>\<open>listTools\<close> operation of the client, which returns a page or throws and
  leaves the client in a new state. A thrown value passes through the pending
  concatenations unchanged.
\<close>

partial_function (option) getAllTools ::
    "('s \<Rightarrow> string option \<Rightarrow> (thrown + 'tool ListToolsResult) \<times> 's) \<Rightarrow> 's \<Rightarrow> string option
     \<Rightarrow> ((thrown + 'tool list) \<times> 's) option" where
  "getAllTools clientListTools client cursor =
     (case clientListTools client cursor of
        (Inl error, client') \<Rightarrow> Some (Inl error, client')
      | (Inr result, client') \<Rightarrow>
          if truthy (nextCursor result) then
            Option.bind (getAllTools clientListTools client' (nextCursor result))
              (\<lambda>(rest, client'').
                 case rest of
                   Inl error \<Rightarrow> Some (Inl error, client'')
                 | Inr others \<Rightarrow> Some (Inr (tools result @ others), client''))
          else Some (Inr (tools result), client'))"

text \<open>
  \<open>answers srv h cursor ps\<close>: called with \<open>cursor\<close> after the history \<open>h\<close>, and then
  with the cursor each page gives, the server returns the pages \<open>ps\<close> one after the
  other; every page but the last has a non-empty next cursor and the last has none (or
  an empty one, which \<^verbatim>\<open>if (nextCursor)\<close> takes for none).
\<close>

fun answers ::
    "('tool, 'args, 'res) McpServer \<Rightarrow> event list \<Rightarrow> string option
     \<Rightarrow> 'tool ListToolsResult list \<Rightarrow> bool" where
  "answers srv h cursor [] = False"
| "answers srv h cursor (p # ps) =
     (listToolsResponse srv h cursor = Inr p
      \<and> (if ps = [] then \<not> truthy (nextCursor p)
         else truthy (nextCursor p)
              \<and> answers srv (h @ [ListToolsCall cursor]) (nextCursor p) ps))"

text \<open>A server with three pages, reached by the cursors \<^verbatim>\<open>c1\<close> and \<^verbatim>\<open>c2\<close>.\<close>

definition threePages :: "(string, unit, unit) McpServer" where
  "threePages =
     \<lparr>listToolsResponse = (\<lambda>h cursor.
         if cursor = None then Inr \<lparr>tools = [''a'', ''b''], nextCursor = Some ''c1''\<rparr>
         else if cursor = Some ''c1'' then Inr \<lparr>tools = [''c''], nextCursor = Some ''c2''\<rparr>
         else if cursor = Some ''c2'' then Inr \<lparr>tools = [''d'', ''e''], nextCursor = None\<rparr>
         else Inl NonObject),
       callToolResponse = (\<lambda>h name args timeout. Inl NonObject),
       closeResponse = (\<lambda>h. None)\<rparr>"

subsection \<open>Schema mapper\<close>

text \<open>
  A JSON schema, as far as the mapper reads it: \<^verbatim>\<open>type\<close> (a name or an array of
  names), \<^verbatim>\<open>properties\<close> (entries in the order of \<^verbatim>\<open>Object.entries\<close>),
  \<^verbatim>\<open>description\<close>, \<^verbatim>\<open>enum\<close> and \<^verbatim>\<open>required\<close>. The type \<open>'v\<close> of enum values is
  left open, and \<open>String\<close> below is the conversion \<^verbatim>\<open>String(value)\<close> on it.
\<close>

datatype typeSpec = TypeName string | TypeNames "string list"

datatype 'v JSONSchema7 =
  JSONSchema7
    (schemaType: "typeSpec option")
    (properties: "(string \<times> 'v JSONSchema7Definition) list option")
    (schemaDescription: "string option")
    (schemaEnum: "'v list option")
    (required: "string list option")
and 'v JSONSchema7Definition = BooleanSchema bool | ObjectSchema "'v JSONSchema7"

record 'v ResourceMapperField =
  fieldId :: string
  displayName :: string
  fieldType :: string
  fieldRequired :: bool
  defaultMatch :: bool
  canBeUsedToMatch :: bool
  display :: bool
  defaultValue :: "string option"
  options :: "(string \<times> 'v) list option"

definition jsonSchemaTypeToFieldType :: "typeSpec \<Rightarrow> string" where
  "jsonSchemaTypeToFieldType type =
     (let primaryType =
            (case type of
               TypeNames ts \<Rightarrow> (case ts of [] \<Rightarrow> None | t # _ \<Rightarrow> Some t)
             | TypeName t \<Rightarrow> Some t)
      in if primaryType = Some ''string'' then ''string''
         else if primaryType = Some ''number'' \<or> primaryType = Some ''integer'' then ''number''
         else if primaryType = Some ''boolean'' then ''boolean''
         else if primaryType = Some ''array'' then ''array''
         else if primaryType = Some ''object'' then ''object''
         else ''string'')"

definition propertyField ::
    "('v \<Rightarrow> string) \<Rightarrow> string list \<Rightarrow> string \<Rightarrow> 'v JSONSchema7 \<Rightarrow> 'v ResourceMapperField" where
  "propertyField String requiredFields key propertySchema =
     (let displayName' =
            (if truthy (schemaDescription propertySchema)
             then key @ '' - ''
                  @ (case schemaDescription propertySchema of Some d \<Rightarrow> d | None \<Rightarrow> [])
             else key);
          fieldType' =
            jsonSchemaTypeToFieldType
              (case schemaType propertySchema of
                 None \<Rightarrow> TypeName ''string''
               | Some t \<Rightarrow> if t = TypeName [] then TypeName ''string'' else t);
          field =
            \<lparr>fieldId = key, displayName = displayName', fieldType = fieldType',
             fieldRequired = (key \<in> set requiredFields), defaultMatch = False,
             canBeUsedToMatch = False, display = True, defaultValue = None, options = None\<rparr>;
          field1 =
            (if fieldType' = ''object'' then field\<lparr>defaultValue := Some ''{}''\<rparr>
             else if fieldType' = ''array'' then field\<lparr>defaultValue := Some ''[]''\<rparr>
             else field)
      in case schemaEnum propertySchema of
           None \<Rightarrow> field1
         | Some values \<Rightarrow>
             if values \<noteq> []
             then field1\<lparr>fieldType := ''options'',
                         options := Some (map (\<lambda>v. (String v, v)) values)\<rparr>
             else field1)"

text \<open>
  The loop over \<^verbatim>\<open>Object.entries(schema.properties)\<close>: a boolean schema is skipped,
  every other property pushes its field.
\<close>

fun convertProperties ::
    "('v \<Rightarrow> string) \<Rightarrow> string list \<Rightarrow> 'v ResourceMapperField list
     \<Rightarrow> (string \<times> 'v JSONSchema7Definition) list \<Rightarrow> 'v ResourceMapperField list" where
  "convertProperties String requiredFields fields' [] = fields'"
| "convertProperties String requiredFields fields' ((key, v) # rest) =
     (case v of
        BooleanSchema _ \<Rightarrow> convertProperties String requiredFields fields' rest
      | ObjectSchema propertySchema \<Rightarrow>
          convertProperties String requiredFields
            (fields' @ [propertyField String requiredFields key propertySchema]) rest)"

definition convertJsonSchemaToResourceMapperFields ::
    "('v \<Rightarrow> string) \<Rightarrow> 'v JSONSchema7 \<Rightarrow> string list \<Rightarrow> 'v ResourceMapperField list" where
  "convertJsonSchemaToResourceMapperFields String schema requiredFields =
     (if schemaType schema \<noteq> Some (TypeName ''object'') then []
      else case properties schema of
             None \<Rightarrow> []
           | Some entries \<Rightarrow> convertProperties String requiredFields [] entries)"

text \<open>The properties that are not boolean schemas, in order.\<close>

fun objectEntries ::
    "(string \<times> 'v JSONSchema7Definition) list \<Rightarrow> (string \<times> 'v JSONSchema7) list" where
  "objectEntries [] = []"
| "objectEntries ((key, ObjectSchema p) # rest) = (key, p) # objectEntries rest"
| "objectEntries ((key, BooleanSchema b) # rest) = objectEntries rest"

subsection \<open>The node's three uses of a session\<close>

record 'v McpTool =
  name :: string
  description :: "string option"
  inputSchema :: "'v JSONSchema7"

record INode =
  nodeType :: string
  typeVersion :: nat

record INodeListSearchItem =
  itemName :: string
  itemValue :: string
  itemDescription :: "string option"

record INodeListSearchResult =
  results :: "INodeListSearchItem list"
  paginationToken :: "string option"

text \<open>
  How a node operation ends: it returns, or throws a \<^verbatim>\<open>NodeOperationError\<close>, or
  lets a thrown value pass. Each operation is paired with the history of the session it
  opened, \<open>None\<close> when it opened none.
\<close>

datatype 'a outcome = Returned 'a | ThrewOperationError NodeOperationError | Threw thrown

text \<open>
  \<^verbatim>\<open>try { ... } finally { await client.result.close() }\<close>: the session is closed
  whatever the body did, and a failing \<^verbatim>\<open>close\<close> replaces the outcome of the body.
\<close>

definition finallyClose ::
    "('tool, 'args, 'res) McpServer \<Rightarrow> event list \<Rightarrow> 'a outcome \<Rightarrow> 'a outcome \<times> event list" where
  "finallyClose srv h out =
     (case close srv h of
        (None, h') \<Rightarrow> (out, h')
      | (Some error, h') \<Rightarrow> (Threw error, h'))"

text \<open>\<^verbatim>\<open>String.prototype.toLowerCase\<close> on code units below 256.\<close>

definition toLowerCase :: "string \<Rightarrow> string" where
  "toLowerCase s =
     map (\<lambda>c. let n = (of_char c :: nat)
              in if (65 \<le> n \<and> n \<le> 90) \<or> (192 \<le> n \<and> n \<le> 222 \<and> n \<noteq> 215)
                 then char_of (n + 32) else c) s"

definition getTools ::
    "(string \<Rightarrow> thrown + CredentialData option)
     \<Rightarrow> (string \<Rightarrow> thrown + 'url)
     \<Rightarrow> ('url \<Rightarrow> (string \<times> string) list option \<Rightarrow> string \<Rightarrow> string
          \<Rightarrow> thrown + ('v McpTool, 'args, 'res) McpServer)
     \<Rightarrow> INode \<Rightarrow> string \<Rightarrow> string option \<Rightarrow> string option
     \<Rightarrow> INodeListSearchResult outcome \<times> event list option" where
  "getTools getCredentials parseUrl connect node authentication filter' paginationToken' =
     (let resolved = getAuthHeadersAndEndpoint getCredentials authentication
      in case endpointUrl resolved of
           None \<Rightarrow> (Returned \<lparr>results = [], paginationToken = None\<rparr>, None)
         | Some url \<Rightarrow>
             if url = [] then (Returned \<lparr>results = [], paginationToken = None\<rparr>, None)
             else
               (case connectMcpClient parseUrl connect (headers resolved) url
                       (nodeType node) (typeVersion node) of
                  ResultError error \<Rightarrow> (ThrewOperationError (mapToNodeOperationError error), None)
                | ResultOk srv \<Rightarrow>
                    (case listTools srv [] paginationToken' of
                       (listed, h) \<Rightarrow>
                         map_prod id Some
                           (finallyClose srv h
                              (case listed of
                                 Inl error \<Rightarrow> Threw error
                               | Inr result \<Rightarrow>
                                   (let tools' =
                                          (case filter' of
                                             None \<Rightarrow> tools result
                                           | Some f \<Rightarrow>
                                               if f = [] then tools result
                                               else filter
                                                      (\<lambda>tool. includes_str
                                                                (toLowerCase (name tool))
                                                                (toLowerCase f))
                                                      (tools result))
                                    in Returned
                                         \<lparr>results =
                                            map (\<lambda>tool. \<lparr>itemName = name tool,
                                                            itemValue = name tool,
                                                            itemDescription = description tool\<rparr>)
                                              tools',
                                          paginationToken = nextCursor result\<rparr>))))))"

text \<open>
  \<open>getToolParameters\<close> may not return, as \<open>getAllTools\<close> may not. The returned object
  \<^verbatim>\<open>{ fields }\<close> is given by its list.
\<close>

definition getToolParameters ::
    "('v \<Rightarrow> string)
     \<Rightarrow> (string \<Rightarrow> thrown + CredentialData option)
     \<Rightarrow> (string \<Rightarrow> thrown + 'url)
     \<Rightarrow> ('url \<Rightarrow> (string \<times> string) list option \<Rightarrow> string \<Rightarrow> string
          \<Rightarrow> thrown + ('v McpTool, 'args, 'res) McpServer)
     \<Rightarrow> INode \<Rightarrow> string \<Rightarrow> string
     \<Rightarrow> ('v ResourceMapperField list outcome \<times> event list option) option" where
  "getToolParameters String getCredentials parseUrl connect node authentication toolId =
     (if toolId = [] then Some (Returned [], None)
      else
        (let resolved = getAuthHeadersAndEndpoint getCredentials authentication
         in case endpointUrl resolved of
              None \<Rightarrow> Some (Returned [], None)
            | Some url \<Rightarrow>
                if url = [] then Some (Returned [], None)
                else
                  (case connectMcpClient parseUrl connect (headers resolved) url
                          (nodeType node) (typeVersion node) of
                     ResultError error \<Rightarrow> Some (Returned [], None)
                   | ResultOk srv \<Rightarrow>
                       Option.bind (getAllTools (listTools srv) [] None)
                         (\<lambda>(fetched, h).
                            Some (map_prod id Some
                              (finallyClose srv h
                                 (case fetched of
                                    Inl error \<Rightarrow> Threw error
                                  | Inr tools' \<Rightarrow>
                                      (case find (\<lambda>t. name t = toolId) tools' of
                                         None \<Rightarrow> Returned []
                                       | Some tool \<Rightarrow>
                                           (let schema = inputSchema tool;
                                                requiredFields =
                                                  (case required schema of
                                                     Some r \<Rightarrow> r
                                                   | None \<Rightarrow> [])
                                            in Returned
                                                 (convertJsonSchemaToResourceMapperFields
                                                    String schema requiredFields))))))))))"

text \<open>
  What \<open>execute\<close> reads from the host for one item before the call (the tool, the
  parameters of the input mode, the timeout and \<^verbatim>\<open>convertToBinary\<close> options), and what
  it does around the call: \<open>buildItem\<close> is the splitting of the result into JSON
  content and binary data, which can throw; \<open>errorMessage\<close> is the message computed
  in the \<^verbatim>\<open>catch\<close> block and \<open>errorItem\<close> the item pushed when the node continues on
  failure.
\<close>

record 'args ItemRequest =
  reqTool :: string
  reqArguments :: 'args
  reqTimeout :: "real option"
  reqConvertToBinary :: bool

record ('args, 'res, 'item) ItemHost =
  getItemParameters :: "string \<Rightarrow> nat \<Rightarrow> thrown + 'args ItemRequest"
  buildItem :: "nat \<Rightarrow> 'res \<Rightarrow> bool \<Rightarrow> thrown + 'item"
  errorMessage :: "thrown \<Rightarrow> string"
  errorItem :: "nat \<Rightarrow> thrown \<Rightarrow> 'item"
  continueOnFail :: bool

fun executeItems ::
    "('args, 'res, 'item) ItemHost \<Rightarrow> ('tool, 'args, 'res) McpServer \<Rightarrow> string
     \<Rightarrow> nat list \<Rightarrow> event list \<Rightarrow> 'item list
     \<Rightarrow> 'item list list outcome \<times> event list" where
  "executeItems host srv inputMode [] h returnData = (Returned [returnData], h)"
| "executeItems host srv inputMode (itemIndex # rest) h returnData =
     (let onError = (\<lambda>e h'.
            if continueOnFail host
            then executeItems host srv inputMode rest h' (returnData @ [errorItem host itemIndex e])
            else (ThrewOperationError
                    (NodeOperationError (errorMessage host e) None (Some itemIndex)), h'))
      in case getItemParameters host inputMode itemIndex of
           Inl e \<Rightarrow> onError e h
         | Inr req \<Rightarrow>
             (case callTool srv h (reqTool req) (reqArguments req) (reqTimeout req) of
                (Inl e, h') \<Rightarrow> onError e h'
              | (Inr result, h') \<Rightarrow>
                  (case buildItem host itemIndex result (reqConvertToBinary req) of
                     Inl e \<Rightarrow> onError e h'
                   | Inr item \<Rightarrow>
                       executeItems host srv inputMode rest h' (returnData @ [item]))))"

definition execute ::
    "(string \<Rightarrow> thrown + CredentialData option)
     \<Rightarrow> (string \<Rightarrow> thrown + 'url)
     \<Rightarrow> ('url \<Rightarrow> (string \<times> string) list option \<Rightarrow> string \<Rightarrow> string
          \<Rightarrow> thrown + ('tool, 'args, 'res) McpServer)
     \<Rightarrow> INode \<Rightarrow> string \<Rightarrow> string \<Rightarrow> nat \<Rightarrow> ('args, 'res, 'item) ItemHost
     \<Rightarrow> 'item list list outcome \<times> event list option" where
  "execute getCredentials parseUrl connect node authentication inputMode itemCount host =
     (let resolved = getAuthHeadersAndEndpoint getCredentials authentication
      in case endpointUrl resolved of
           None \<Rightarrow>
             (ThrewOperationError
                (NodeOperationError ''Server URL is required in credentials'' None None), None)
         | Some url \<Rightarrow>
             if url = [] then
               (ThrewOperationError
                  (NodeOperationError ''Server URL is required in credentials'' None None), None)
             else
               (case connectMcpClient parseUrl connect (headers resolved) url
                       (nodeType node) (typeVersion node) of
                  ResultError error \<Rightarrow> (ThrewOperationError (mapToNodeOperationError error), None)
                | ResultOk srv \<Rightarrow>
                    map_prod id Some (executeItems host srv inputMode [0..<itemCount] [] [])))"

text \<open>Concrete inputs: stored bearer credentials, a server, a host and a node.\<close>

definition demoCredentials :: "string \<Rightarrow> thrown + CredentialData option" where
  "demoCredentials credentialType =
     (if credentialType = ''forestMcpApi''
      then Inr (Some \<lparr>serverUrl = Some ''https://x.test'', token = Some ''abc'',
                      oauthTokenData = None\<rparr>)
      else Inl NonObject)"

definition echoServer :: "(unit McpTool, string, string) McpServer" where
  "echoServer =
     \<lparr>listToolsResponse = (\<lambda>h cursor. Inr \<lparr>tools = [], nextCursor = None\<rparr>),
      callToolResponse = (\<lambda>h tool args timeout. Inr args),
      closeResponse = (\<lambda>h. None)\<rparr>"

definition demoHost :: "(string, string, string) ItemHost" where
  "demoHost =
     \<lparr>getItemParameters = (\<lambda>inputMode itemIndex.
        Inr \<lparr>reqTool = ''listUsers'', reqArguments = ''{}'', reqTimeout = None,
             reqConvertToBinary = True\<rparr>),
      buildItem = (\<lambda>itemIndex result convertToBinary. Inr result),
      errorMessage = (\<lambda>e. ''failed''),
      errorItem = (\<lambda>itemIndex e. ''failed''),
      continueOnFail = False\<rparr>"

definition demoNode :: INode where
  "demoNode = \<lparr>nodeType = ''forest'', typeVersion = 1\<rparr>"

section \<open>Properties\<close>

subsection \<open>\<open>cleanParameters\<close>\<close>

lemma tree_induct [case_names Undefined Null Leaf Arr Obj]:
  assumes "P Undefined" and "P Null" and "\<And>a. P (Leaf a)"
    and "\<And>xs. (\<And>x. x \<in> set xs \<Longrightarrow> P x) \<Longrightarrow> P (Arr xs)"
    and "\<And>p kvs. (\<And>kv. kv \<in> set kvs \<Longrightarrow> P (snd kv)) \<Longrightarrow> P (Obj p kvs)"
  shows "P (t :: 'a tree)"
proof -
  have "P t" and "\<forall>kv \<in> set kvs. P (snd kv)"
    for kvs :: "(string \<times> 'a tree) list"
      and cleaned :: "'a prototype \<times> (string \<times> 'a tree) list"
  proof (induction t and kvs cleaned rule: cleanParameters_cleanEntries.induct)
    case (7 key v rest cleaned)
    have "\<forall>kv \<in> set rest. P (snd kv)"
    proof (cases "cleanParameters v = Undefined")
      case True
      with 7(4) show ?thesis by simp
    next
      case False
      with 7(2,3) show ?thesis
        by (cases "isEmptyObject (cleanParameters v)") simp_all
    qed
    with 7(1) show ?case by simp
  qed (use assms in auto)
  then show ?thesis by blast
qed

lemma cleanParameters_Undefined_iff:
  "cleanParameters t = Undefined \<longleftrightarrow> t = Undefined"
  by (cases t) (simp_all split: prod.splits)

lemma cleanEntries_entries:
  "snd (cleanEntries kvs (p, es)) =
     es @ filter (\<lambda>kv. fst kv \<noteq> ''__proto__'' \<and> snd kv \<noteq> Undefined \<and> \<not> isEmptyObject (snd kv))
            (map (\<lambda>kv. (fst kv, cleanParameters (snd kv))) kvs)"
proof (induction kvs arbitrary: p es)
  case Nil
  then show ?case by simp
next
  case (Cons kv kvs)
  obtain key v where kv: "kv = (key, v)" by (cases kv)
  show ?case
    unfolding kv
    by (cases "cleanParameters v") (simp_all add: Let_def Cons.IH)
qed

lemma cleanEntries_prototype:
  "list_all (\<lambda>kv. fst kv \<noteq> ''__proto__'') kvs \<Longrightarrow> fst (cleanEntries kvs (p, es)) = p"
proof (induction kvs arbitrary: p es)
  case Nil
  then show ?case by simp
next
  case (Cons kv kvs)
  obtain key v where kv: "kv = (key, v)" by (cases kv)
  from Cons.prems have rest: "list_all (\<lambda>kv. fst kv \<noteq> ''__proto__'') kvs"
    and key: "key \<noteq> ''__proto__''"
    by (simp_all add: kv)
  show ?case
    unfolding kv using key Cons.IH [OF rest]
    by (simp add: Let_def)
qed

lemma cleanParameters_Obj:
  "cleanParameters (Obj p kvs) =
     Obj (fst (cleanEntries kvs (ObjectPrototype, [])))
       (filter (\<lambda>kv. fst kv \<noteq> ''__proto__'' \<and> snd kv \<noteq> Undefined \<and> \<not> isEmptyObject (snd kv))
          (map (\<lambda>kv. (fst kv, cleanParameters (snd kv))) kvs))"
  using cleanEntries_entries [of kvs ObjectPrototype "[]"]
  by (simp add: case_prod_beta)

lemma cleanParameters_Arr:
  "cleanParameters (Arr xs) =
     Arr (map cleanParameters (filter (\<lambda>x. x \<noteq> Undefined) xs))"
  by (induction xs) (auto simp: cleanParameters_Undefined_iff)

lemma cleanParameters_wellCleaned: "wellCleaned (cleanParameters t)"
proof (induction t rule: tree_induct)
  case (Arr xs)
  then show ?case
    by (auto simp: list_all_iff)
next
  case (Obj p kvs)
  then show ?case
    by (auto simp: cleanParameters_Obj list_all_iff simp del: cleanParameters.simps(4))
qed simp_all

lemma cleanParameters_ordinaryKeys: "ordinaryKeys (cleanParameters t)"
proof (induction t rule: tree_induct)
  case (Arr xs)
  then show ?case
    by (auto simp: list_all_iff)
next
  case (Obj p kvs)
  then show ?case
    by (auto simp: cleanParameters_Obj list_all_iff simp del: cleanParameters.simps(4))
qed simp_all

lemma resetPrototypes_Undefined_iff: "resetPrototypes t = Undefined \<longleftrightarrow> t = Undefined"
  by (cases t) simp_all

lemma isEmptyObject_resetPrototypes: "isEmptyObject (resetPrototypes t) = isEmptyObject t"
  by (cases t) simp_all

lemma cleanParameters_of_cleaned:
  "wellCleaned u \<Longrightarrow> ordinaryKeys u \<Longrightarrow> cleanParameters u = resetPrototypes u"
proof (induction u rule: tree_induct)
  case (Arr xs)
  then have "\<forall>x \<in> set xs. cleanParameters x = resetPrototypes x \<and> x \<noteq> Undefined"
    by (auto simp: list_all_iff)
  then have "map cleanParameters xs = map resetPrototypes xs"
    and "filter (\<lambda>x. x \<noteq> Undefined) xs = xs"
    by (auto simp: filter_id_conv)
  then show ?case
    by (simp add: cleanParameters_Arr del: cleanParameters.simps(3))
next
  case (Obj p kvs)
  let ?keep = "\<lambda>kv :: string \<times> 'a tree.
      fst kv \<noteq> ''__proto__'' \<and> snd kv \<noteq> Undefined \<and> \<not> isEmptyObject (snd kv)"
  from Obj have each: "\<forall>kv \<in> set kvs.
      cleanParameters (snd kv) = resetPrototypes (snd kv) \<and> fst kv \<noteq> ''__proto__''
      \<and> snd kv \<noteq> Undefined \<and> \<not> isEmptyObject (snd kv)"
    by (auto simp: list_all_iff)
  then have same: "map (\<lambda>kv. (fst kv, cleanParameters (snd kv))) kvs
      = map (\<lambda>kv. (fst kv, resetPrototypes (snd kv))) kvs"
    by simp
  from each have "\<forall>kv \<in> set (map (\<lambda>kv. (fst kv, resetPrototypes (snd kv))) kvs). ?keep kv"
    by (auto simp: resetPrototypes_Undefined_iff isEmptyObject_resetPrototypes)
  then have keep: "filter ?keep (map (\<lambda>kv. (fst kv, resetPrototypes (snd kv))) kvs)
      = map (\<lambda>kv. (fst kv, resetPrototypes (snd kv))) kvs"
    by (simp only: filter_id_conv)
  from each have "list_all (\<lambda>kv. fst kv \<noteq> ''__proto__'') kvs"
    by (simp add: list_all_iff)
  then have "fst (cleanEntries kvs (ObjectPrototype, [])) = ObjectPrototype"
    by (rule cleanEntries_prototype)
  then have "cleanParameters (Obj p kvs)
      = Obj ObjectPrototype (filter ?keep (map (\<lambda>kv. (fst kv, cleanParameters (snd kv))) kvs))"
    by (simp only: cleanParameters_Obj)
  also have "\<dots> = Obj ObjectPrototype
      (filter ?keep (map (\<lambda>kv. (fst kv, resetPrototypes (snd kv))) kvs))"
    by (simp only: same)
  also have "\<dots> = Obj ObjectPrototype (map (\<lambda>kv. (fst kv, resetPrototypes (snd kv))) kvs)"
    by (simp only: keep)
  finally show ?case by simp
qed simp_all

lemma cleanParameters_second_pass:
  "cleanParameters (cleanParameters t) = resetPrototypes (cleanParameters t)"
  by (rule cleanParameters_of_cleaned [OF cleanParameters_wellCleaned cleanParameters_ordinaryKeys])

lemma resetPrototypes_plain: "plain u \<Longrightarrow> resetPrototypes u = u"
proof (induction u rule: tree_induct)
  case (Arr xs)
  then have "map resetPrototypes xs = map id xs"
    by (intro map_cong) (auto simp: list_all_iff)
  then show ?case by simp
next
  case (Obj p kvs)
  then have "map (\<lambda>kv. (fst kv, resetPrototypes (snd kv))) kvs = map id kvs"
    by (intro map_cong) (auto simp: list_all_iff)
  with Obj.prems show ?case by simp
qed simp_all

lemma cleanParameters_plain: "plain t \<Longrightarrow> plain (cleanParameters t)"
proof (induction t rule: tree_induct)
  case (Arr xs)
  then show ?case
    by (auto simp: list_all_iff)
next
  case (Obj p kvs)
  then have "list_all (\<lambda>kv. fst kv \<noteq> ''__proto__'') kvs"
    by (simp add: list_all_iff)
  then have "fst (cleanEntries kvs (ObjectPrototype, [])) = ObjectPrototype"
    by (rule cleanEntries_prototype)
  with Obj show ?case
    by (auto simp: cleanParameters_Obj list_all_iff simp del: cleanParameters.simps(4))
qed simp_all

lemma cleanParameters_plain_idempotent:
  "plain t \<Longrightarrow> cleanParameters (cleanParameters t) = cleanParameters t"
  by (simp add: cleanParameters_second_pass resetPrototypes_plain cleanParameters_plain)

lemma cleanParameters_plain_Obj:
  assumes "list_all (\<lambda>kv. fst kv \<noteq> ''__proto__'') kvs"
  shows "cleanParameters (Obj p kvs) =
     Obj ObjectPrototype
       (filter (\<lambda>kv. snd kv \<noteq> Undefined \<and> \<not> isEmptyObject (snd kv))
          (map (\<lambda>kv. (fst kv, cleanParameters (snd kv))) kvs))"
proof -
  have "filter (\<lambda>kv. fst kv \<noteq> ''__proto__'' \<and> snd kv \<noteq> Undefined \<and> \<not> isEmptyObject (snd kv))
          (map (\<lambda>kv. (fst kv, cleanParameters (snd kv))) kvs)
      = filter (\<lambda>kv. snd kv \<noteq> Undefined \<and> \<not> isEmptyObject (snd kv))
          (map (\<lambda>kv. (fst kv, cleanParameters (snd kv))) kvs)"
    using assms by (intro filter_cong) (auto simp: list_all_iff)
  with cleanEntries_prototype [OF assms, of ObjectPrototype "[]"] show ?thesis
    by (simp add: cleanParameters_Obj del: cleanParameters.simps(4))
qed


text \<open>
  C4. In a cleaned tree only \<^verbatim>\<open>undefined\<close> values and empty objects are gone and
  every other value is where it was. This fails for an own key \<^verbatim>\<open>__proto__\<close>: its
  entry is never in the result, whether the value is the number 5 or the object
  \<^verbatim>\<open>{a: 1}\<close>; and an object whose only entry has that key comes out without own
  keys, so that the key it is bound to is removed as well.
\<close>

theorem cleanParameters_loses_proto_entry:
  "cleanParameters (Obj ObjectPrototype [(''__proto__'', Leaf (5::nat)), (''b'', Leaf 2)])
     = Obj ObjectPrototype [(''b'', Leaf 2)]
   \<and> cleanParameters
        (Obj ObjectPrototype
           [(''b'', Leaf (2::nat)), (''__proto__'', Obj ObjectPrototype [(''a'', Leaf 1)])])
     = Obj (Prototype (Obj ObjectPrototype [(''a'', Leaf 1)])) [(''b'', Leaf 2)]
   \<and> cleanParameters
        (Obj ObjectPrototype
           [(''p'', Obj ObjectPrototype
                      [(''__proto__'', Obj ObjectPrototype [(''a'', Leaf (1::nat))])])])
     = Obj ObjectPrototype []"
  by simp

subsection \<open>Strings\<close>

lemma dropWhile_Nil_iff: "dropWhile P xs = [] \<longleftrightarrow> list_all P xs"
  by (induction xs) auto

lemma trim_empty_iff: "trim s = [] \<longleftrightarrow> list_all isWhiteSpace s"
proof
  assume "list_all isWhiteSpace s"
  then have "dropWhile isWhiteSpace s = []"
    by (simp only: dropWhile_Nil_iff)
  then show "trim s = []"
    by (simp add: trim_def del: dropWhile_eq_Nil_conv)
next
  assume "trim s = []"
  then have all: "list_all isWhiteSpace (rev (dropWhile isWhiteSpace s))"
    by (simp only: trim_def rev_is_Nil_conv dropWhile_Nil_iff)
  show "list_all isWhiteSpace s"
  proof (cases "dropWhile isWhiteSpace s")
    case Nil
    then show ?thesis by (simp only: dropWhile_Nil_iff)
  next
    case (Cons x xs)
    then have "\<not> isWhiteSpace (hd (dropWhile isWhiteSpace s))"
      using hd_dropWhile [of isWhiteSpace s] by simp
    with Cons all show ?thesis by (simp add: list_all_iff)
  qed
qed

lemma trim_padding:
  assumes l: "list_all isWhiteSpace l" and r: "list_all isWhiteSpace r"
  shows "trim (l @ s @ r) = trim s"
proof -
  have left: "dropWhile isWhiteSpace (l @ s @ r) = dropWhile isWhiteSpace (s @ r)"
    using l by (intro dropWhile_append2) (simp add: list_all_iff)
  show ?thesis
  proof (cases "list_all isWhiteSpace s")
    case True
    with r have "list_all isWhiteSpace (s @ r)" by simp
    then have "dropWhile isWhiteSpace (s @ r) = []"
      by (simp only: dropWhile_Nil_iff)
    moreover from True have "trim s = []"
      by (simp only: trim_empty_iff)
    ultimately show ?thesis
      using left by (simp add: trim_def del: dropWhile_eq_Nil_conv)
  next
    case False
    then obtain x where x: "x \<in> set s" "\<not> isWhiteSpace x"
      by (auto simp: list_all_iff)
    then have "dropWhile isWhiteSpace (s @ r) = dropWhile isWhiteSpace s @ r"
      by (intro dropWhile_append1)
    then have "rev (dropWhile isWhiteSpace (l @ s @ r)) = rev r @ rev (dropWhile isWhiteSpace s)"
      using left by simp
    moreover have "dropWhile isWhiteSpace (rev r @ rev (dropWhile isWhiteSpace s))
        = dropWhile isWhiteSpace (rev (dropWhile isWhiteSpace s))"
      using r by (intro dropWhile_append2) (simp add: list_all_iff)
    ultimately show ?thesis
      by (simp add: trim_def)
  qed
qed

lemma startsWith_iff: "startsWith s p \<longleftrightarrow> (\<exists>b. s = p @ b)"
  unfolding startsWith_def
  by (metis append_eq_conv_conj append_take_drop_id)

lemma includes_str_iff: "includes_str s p \<longleftrightarrow> (\<exists>a b. s = a @ p @ b)"
proof (induction s)
  case Nil
  then show ?case by auto
next
  case (Cons c cs)
  show ?case
  proof
    assume "includes_str (c # cs) p"
    then consider "startsWith (c # cs) p" | "includes_str cs p" by auto
    then show "\<exists>a b. c # cs = a @ p @ b"
    proof cases
      case 1
      then obtain b where "c # cs = p @ b" by (auto simp: startsWith_iff)
      then have "c # cs = [] @ p @ b" by simp
      then show ?thesis by blast
    next
      case 2
      with Cons obtain a b where "cs = a @ p @ b" by auto
      then have "c # cs = (c # a) @ p @ b" by simp
      then show ?thesis by blast
    qed
  next
    assume "\<exists>a b. c # cs = a @ p @ b"
    then obtain a b where ab: "c # cs = a @ p @ b" by blast
    show "includes_str (c # cs) p"
    proof (cases a)
      case Nil
      with ab have "startsWith (c # cs) p" by (auto simp: startsWith_iff)
      then show ?thesis by simp
    next
      case (Cons x a')
      with ab have "cs = a' @ p @ b" by simp
      with Cons.IH show ?thesis by auto
    qed
  qed
qed

lemma endsWith_iff: "endsWith s p \<longleftrightarrow> (\<exists>a. s = a @ p)"
  unfolding endsWith_def
  by (metis append_eq_conv_conj append_take_drop_id diff_add_inverse2 length_append le_add2 length_drop)


lemma toString_codes:
  "toString 401 = ''401''" "toString 403 = ''403''" "toString 404 = ''404''"
  by (simp_all add: toString.simps)

lemma errorHasCode_iff:
  "errorHasCode e c \<longleftrightarrow>
     (\<exists>m. e = ErrorObject (Code (Finite (real c))) m)
     \<or> (\<exists>k s a b. e = ErrorObject k (StringMessage s) \<and> s = a @ toString c @ b)"
proof (cases e)
  case NonObject
  then show ?thesis by simp
next
  case (ErrorObject k m)
  then show ?thesis
    by (cases k; cases m) (auto simp: includes_str_iff)
qed

lemma hasHttpScheme_iff:
  "hasHttpScheme input \<longleftrightarrow>
     (\<exists>scheme rest. input = scheme @ rest
        \<and> (map canonicalize scheme = ''HTTP://'' \<or> map canonicalize scheme = ''HTTPS://''))"
proof -
  have sw: "startsWith (map canonicalize input) p \<longleftrightarrow>
          (\<exists>scheme rest. input = scheme @ rest \<and> map canonicalize scheme = p)" for p
  proof
    assume "startsWith (map canonicalize input) p"
    then have "map canonicalize (take (length p) input) = p"
      by (simp add: startsWith_def take_map)
    moreover have "input = take (length p) input @ drop (length p) input"
      by simp
    ultimately show "\<exists>scheme rest. input = scheme @ rest \<and> map canonicalize scheme = p"
      by blast
  next
    assume "\<exists>scheme rest. input = scheme @ rest \<and> map canonicalize scheme = p"
    then obtain scheme rest where "input = scheme @ rest" "map canonicalize scheme = p"
      by blast
    then show "startsWith (map canonicalize input) p"
      by (auto simp: startsWith_def)
  qed
  show ?thesis
    unfolding hasHttpScheme_def Let_def sw [of "''HTTP://''"] sw [of "''HTTPS://''"]
    by (simp only: ex_disj_distrib conj_disj_distribL)
qed

lemma hasHttpScheme_withProtocol: "hasHttpScheme (withProtocol input)"
  by (simp add: withProtocol_def hasHttpScheme_def canonicalize_def startsWith_def)

subsection \<open>Credential resolver\<close>

text \<open>
  C5. Credential resolution in bearer mode, for a stored record \<open>r\<close>: the token is
  trimmed, and the result is empty when nothing is left of it; otherwise the header is
  \<^verbatim>\<open>Authorization: Bearer <token>\<close>, and the endpoint is the trimmed server URL, with
  \<^verbatim>\<open>/mcp\<close> appended unless it ends with \<^verbatim>\<open>/mcp\<close> already. The record
  \<^verbatim>\<open>{serverUrl: "https://x.test", token: "abc"}\<close> resolves to the endpoint
  \<^verbatim>\<open>https://x.test/mcp\<close> with the header \<^verbatim>\<open>Bearer abc\<close>. In OAuth2 mode a record
  without \<^verbatim>\<open>oauthTokenData\<close> resolves to the empty result.
\<close>

theorem bearer_credential_resolution:
  assumes "getCredentials ''forestMcpApi'' = Inr (Some r)"
    and "getCredentials' ''forestMcpOAuth2Api'' = Inr (Some r')"
    and "oauthTokenData r' = None"
    and "authentication \<noteq> ''bearerAuth''"
  shows
    "(trimOrEmpty (token r) = [] \<longrightarrow>
        getAuthHeadersAndEndpoint getCredentials ''bearerAuth'' = emptyEndpoint)
     \<and> (trimOrEmpty (token r) \<noteq> [] \<longrightarrow>
          headers (getAuthHeadersAndEndpoint getCredentials ''bearerAuth'')
            = Some [(''Authorization'', ''Bearer '' @ trimOrEmpty (token r))]
          \<and> endpointUrl (getAuthHeadersAndEndpoint getCredentials ''bearerAuth'')
            = Some (if endsWith (trimOrEmpty (serverUrl r)) ''/mcp''
                    then trimOrEmpty (serverUrl r)
                    else trimOrEmpty (serverUrl r) @ ''/mcp'')
          \<and> (\<exists>u. endpointUrl (getAuthHeadersAndEndpoint getCredentials ''bearerAuth'')
                    = Some (u @ ''/mcp'')))
     \<and> getAuthHeadersAndEndpoint
          (\<lambda>credentialType. if credentialType = ''forestMcpApi''
             then Inr (Some \<lparr>serverUrl = Some ''https://x.test'', token = Some ''abc'',
                             oauthTokenData = None\<rparr>)
             else Inl NonObject)
          ''bearerAuth''
         = \<lparr>headers = Some [(''Authorization'', ''Bearer abc'')],
            endpointUrl = Some ''https://x.test/mcp''\<rparr>
     \<and> getAuthHeadersAndEndpoint getCredentials' authentication = emptyEndpoint"
proof -
  let ?res = "getAuthHeadersAndEndpoint getCredentials ''bearerAuth''"
  have empty: "trimOrEmpty (token r) = [] \<Longrightarrow> ?res = emptyEndpoint"
    using assms(1) by (simp add: getAuthHeadersAndEndpoint_def Let_def)
  have hdr: "trimOrEmpty (token r) \<noteq> [] \<Longrightarrow>
      headers ?res = Some [(''Authorization'', ''Bearer '' @ trimOrEmpty (token r))]"
    using assms(1) by (simp add: getAuthHeadersAndEndpoint_def Let_def)
  have url: "trimOrEmpty (token r) \<noteq> [] \<Longrightarrow>
      endpointUrl ?res = Some (if endsWith (trimOrEmpty (serverUrl r)) ''/mcp''
                    then trimOrEmpty (serverUrl r)
                    else trimOrEmpty (serverUrl r) @ ''/mcp'')"
    using assms(1) by (simp add: getAuthHeadersAndEndpoint_def Let_def)
  have suffix: "\<exists>u. (if endsWith s ''/mcp'' then s else s @ ''/mcp'') = u @ ''/mcp''" for s
    by (auto simp: endsWith_iff)
  have ex: "trimOrEmpty (token r) \<noteq> [] \<Longrightarrow> \<exists>u. endpointUrl ?res = Some (u @ ''/mcp'')"
    using url suffix [of "trimOrEmpty (serverUrl r)"] by auto
  have example: "getAuthHeadersAndEndpoint
          (\<lambda>credentialType. if credentialType = ''forestMcpApi''
             then Inr (Some \<lparr>serverUrl = Some ''https://x.test'', token = Some ''abc'',
                             oauthTokenData = None\<rparr>)
             else Inl NonObject)
          ''bearerAuth''
         = \<lparr>headers = Some [(''Authorization'', ''Bearer abc'')],
            endpointUrl = Some ''https://x.test/mcp''\<rparr>"
    by (simp add: getAuthHeadersAndEndpoint_def Let_def trimOrEmpty_def trim_def
        isWhiteSpace_def endsWith_def)
  have oauth: "getAuthHeadersAndEndpoint getCredentials' authentication = emptyEndpoint"
    using assms(2-4) by (simp add: getAuthHeadersAndEndpoint_def Let_def trimOrEmpty_def)
  from empty hdr url ex example oauth show ?thesis by blast
qed

text \<open>
  C10. In bearer mode, a record whose token is not empty after trimming and whose
  \<^verbatim>\<open>serverUrl\<close> is absent or only white space does not resolve to the empty result:
  the endpoint is \<^verbatim>\<open>/mcp\<close> and the \<^verbatim>\<open>Authorization\<close> header is set. Only the
  token decides whether the result is empty.
\<close>

theorem bearer_blank_serverUrl:
  assumes "getCredentials ''forestMcpApi'' = Inr (Some r)"
    and "trimOrEmpty (token r) \<noteq> []"
    and "case serverUrl r of None \<Rightarrow> True | Some s \<Rightarrow> list_all isWhiteSpace s"
  shows "getAuthHeadersAndEndpoint getCredentials ''bearerAuth''
           = \<lparr>headers = Some [(''Authorization'', ''Bearer '' @ trimOrEmpty (token r))],
              endpointUrl = Some ''/mcp''\<rparr>
         \<and> getAuthHeadersAndEndpoint getCredentials ''bearerAuth'' \<noteq> emptyEndpoint"
proof -
  have "trimOrEmpty (serverUrl r) = []"
    using assms(3) by (auto simp: trimOrEmpty_def trim_empty_iff split: option.splits)
  then show ?thesis
    using assms(1,2)
    by (simp add: getAuthHeadersAndEndpoint_def Let_def endsWith_def emptyEndpoint_def)
qed


theorem bearer_credential_resolution_witness:
  "headers (getAuthHeadersAndEndpoint
      (\<lambda>credentialType. if credentialType = ''forestMcpApi''
         then Inr (Some \<lparr>serverUrl = Some '' https://x.test/mcp '', token = Some '' abc'',
                         oauthTokenData = None\<rparr>)
         else Inl NonObject) ''bearerAuth'')
     = Some [(''Authorization'', ''Bearer abc'')]
   \<and> endpointUrl (getAuthHeadersAndEndpoint
      (\<lambda>credentialType. if credentialType = ''forestMcpApi''
         then Inr (Some \<lparr>serverUrl = Some '' https://x.test/mcp '', token = Some '' abc'',
                         oauthTokenData = None\<rparr>)
         else Inl NonObject) ''bearerAuth'')
     = Some ''https://x.test/mcp''
   \<and> getAuthHeadersAndEndpoint
        (\<lambda>credentialType. Inr (Some \<lparr>serverUrl = Some ''https://x.test'', token = None,
                              oauthTokenData = None\<rparr>)) ''mcpOAuth2Api''
     = emptyEndpoint"
  using bearer_credential_resolution
    [of "\<lambda>credentialType. if credentialType = ''forestMcpApi''
           then Inr (Some \<lparr>serverUrl = Some '' https://x.test/mcp '', token = Some '' abc'',
                           oauthTokenData = None\<rparr>)
           else Inl NonObject"
        "\<lparr>serverUrl = Some '' https://x.test/mcp '', token = Some '' abc'',
          oauthTokenData = None\<rparr>"
        "\<lambda>credentialType. Inr (Some \<lparr>serverUrl = Some ''https://x.test'', token = None,
                              oauthTokenData = None\<rparr>)"
        "\<lparr>serverUrl = Some ''https://x.test'', token = None, oauthTokenData = None\<rparr>"
        "''mcpOAuth2Api''"]
  by (simp add: trimOrEmpty_def trim_def isWhiteSpace_def endsWith_def)

theorem bearer_blank_serverUrl_witness:
  "getAuthHeadersAndEndpoint
     (\<lambda>credentialType. Inr (Some \<lparr>serverUrl = Some ''  '', token = Some ''abc'',
                           oauthTokenData = None\<rparr>)) ''bearerAuth''
     = \<lparr>headers = Some [(''Authorization'', ''Bearer abc'')], endpointUrl = Some ''/mcp''\<rparr>"
  using bearer_blank_serverUrl
    [of "\<lambda>credentialType. Inr (Some \<lparr>serverUrl = Some ''  '', token = Some ''abc'',
                               oauthTokenData = None\<rparr>)"
        "\<lparr>serverUrl = Some ''  '', token = Some ''abc'', oauthTokenData = None\<rparr>"]
  by (simp add: trimOrEmpty_def trim_def isWhiteSpace_def)

subsection \<open>Session connector\<close>

text \<open>
  C6, amended. When the URL is valid and the connection attempt throws \<open>error\<close>, the
  outcome is \<open>auth\<close> if the error carries 401 or 403; it is \<open>not_found\<close> if the error
  carries 404 and neither 401 nor 403; it is \<open>connection\<close> if it carries none of the
  three. These cases cover every thrown value. An error carries a code when it is an
  object whose \<^verbatim>\<open>code\<close> is that number, or whose \<^verbatim>\<open>message\<close> is a string with the
  decimal digits of the code in it. When the connection attempt returns a client, the
  outcome is that client.
\<close>

theorem connect_failure_classification:
  assumes "normalizeAndValidateUrl parseUrl endpoint = ResultOk url"
  shows
    "(\<forall>error. connect url hdrs clientName (toString version) = Inl error \<longrightarrow>
        (errorHasCode error 401 \<or> errorHasCode error 403 \<longrightarrow>
           connectMcpClient parseUrl connect hdrs endpoint clientName version
             = ResultError (auth error))
        \<and> (\<not> errorHasCode error 401 \<and> \<not> errorHasCode error 403 \<and> errorHasCode error 404 \<longrightarrow>
           connectMcpClient parseUrl connect hdrs endpoint clientName version
             = ResultError (not_found error))
        \<and> (\<not> errorHasCode error 401 \<and> \<not> errorHasCode error 403 \<and> \<not> errorHasCode error 404 \<longrightarrow>
           connectMcpClient parseUrl connect hdrs endpoint clientName version
             = ResultError (connection error)))
     \<and> (\<forall>client. connect url hdrs clientName (toString version) = Inr client \<longrightarrow>
          connectMcpClient parseUrl connect hdrs endpoint clientName version = ResultOk client)
     \<and> (\<forall>error c. errorHasCode error c \<longleftrightarrow>
          (\<exists>m. error = ErrorObject (Code (Finite (real c))) m)
          \<or> (\<exists>k s a b. error = ErrorObject k (StringMessage s) \<and> s = a @ toString c @ b))
     \<and> toString 401 = ''401'' \<and> toString 403 = ''403'' \<and> toString 404 = ''404''"
proof -
  have thrown: "\<forall>error. connect url hdrs clientName (toString version) = Inl error \<longrightarrow>
        (errorHasCode error 401 \<or> errorHasCode error 403 \<longrightarrow>
           connectMcpClient parseUrl connect hdrs endpoint clientName version
             = ResultError (auth error))
        \<and> (\<not> errorHasCode error 401 \<and> \<not> errorHasCode error 403 \<and> errorHasCode error 404 \<longrightarrow>
           connectMcpClient parseUrl connect hdrs endpoint clientName version
             = ResultError (not_found error))
        \<and> (\<not> errorHasCode error 401 \<and> \<not> errorHasCode error 403 \<and> \<not> errorHasCode error 404 \<longrightarrow>
           connectMcpClient parseUrl connect hdrs endpoint clientName version
             = ResultError (connection error))"
    using assms
    by (simp add: connectMcpClient_def createResultError_def isUnauthorizedError_def
        isForbiddenError_def isNotFoundError_def)
  have connected: "\<forall>client. connect url hdrs clientName (toString version) = Inr client \<longrightarrow>
          connectMcpClient parseUrl connect hdrs endpoint clientName version = ResultOk client"
    using assms by (simp add: connectMcpClient_def createResultOk_def)
  have carries: "\<forall>error c. errorHasCode error c \<longleftrightarrow>
          (\<exists>m. error = ErrorObject (Code (Finite (real c))) m)
          \<or> (\<exists>k s a b. error = ErrorObject k (StringMessage s) \<and> s = a @ toString c @ b)"
    using errorHasCode_iff by blast
  from thrown connected carries toString_codes show ?thesis
    by (intro conjI)
qed

theorem connect_failure_classification_witness:
  "connectMcpClient Inr (\<lambda>url hdrs clientName version. Inl (ErrorObject (Code (Finite 403)) NoMessage))
       None ''x.test/mcp'' ''forest'' 1
     = (ResultError (auth (ErrorObject (Code (Finite 403)) NoMessage))
         :: (unit, ConnectMcpClientError) Result)
   \<and> connectMcpClient Inr
       (\<lambda>url hdrs clientName version. Inl (ErrorObject NoCode (StringMessage ''HTTP 404: no such route'')))
       None ''x.test/mcp'' ''forest'' 1
     = (ResultError (not_found (ErrorObject NoCode (StringMessage ''HTTP 404: no such route'')))
         :: (unit, ConnectMcpClientError) Result)
   \<and> connectMcpClient Inr (\<lambda>url hdrs clientName version. Inl NonObject)
       None ''x.test/mcp'' ''forest'' 1
     = (ResultError (connection NonObject) :: (unit, ConnectMcpClientError) Result)
   \<and> connectMcpClient Inr (\<lambda>url hdrs clientName version. Inr ())
       None ''x.test/mcp'' ''forest'' 1
     = ResultOk ()"
proof -
  have url: "normalizeAndValidateUrl Inr ''x.test/mcp'' = ResultOk ''https://x.test/mcp''"
    by (simp add: normalizeAndValidateUrl_def withProtocol_def hasHttpScheme_def
        canonicalize_def startsWith_def createResultOk_def)
  note c = connect_failure_classification [OF url, THEN conjunct1, rule_format]
    and ok = connect_failure_classification [OF url, THEN conjunct2, THEN conjunct1, rule_format]
  have "connectMcpClient Inr
       (\<lambda>url hdrs clientName version. Inl (ErrorObject (Code (Finite 403)) NoMessage))
       None ''x.test/mcp'' ''forest'' 1
     = (ResultError (auth (ErrorObject (Code (Finite 403)) NoMessage))
         :: (unit, ConnectMcpClientError) Result)"
    by (rule c [THEN conjunct1, rule_format]) simp_all
  moreover have "connectMcpClient Inr
       (\<lambda>url hdrs clientName version. Inl (ErrorObject NoCode (StringMessage ''HTTP 404: no such route'')))
       None ''x.test/mcp'' ''forest'' 1
     = (ResultError (not_found (ErrorObject NoCode (StringMessage ''HTTP 404: no such route'')))
         :: (unit, ConnectMcpClientError) Result)"
    by (rule c [THEN conjunct2, THEN conjunct1, rule_format])
      (simp_all add: toString_codes startsWith_def)
  moreover have "connectMcpClient Inr (\<lambda>url hdrs clientName version. Inl NonObject)
       None ''x.test/mcp'' ''forest'' 1
     = (ResultError (connection NonObject) :: (unit, ConnectMcpClientError) Result)"
    by (rule c [THEN conjunct2, THEN conjunct2, rule_format]) simp_all
  moreover have "connectMcpClient Inr (\<lambda>url hdrs clientName version. Inr ())
       None ''x.test/mcp'' ''forest'' 1
     = ResultOk ()"
    by (rule ok) simp
  ultimately show ?thesis by (intro conjI)
qed

text \<open>
  C6, as stated, fails where an error carries two codes: an error whose \<^verbatim>\<open>code\<close> is
  404 and whose message has \<^verbatim>\<open>401\<close> in it carries 404, and is reported as \<open>auth\<close>,
  not as \<open>not_found\<close>, since the tests of the \<^verbatim>\<open>catch\<close> block run in order.
\<close>

theorem not_found_overlap_counterexample:
  "errorHasCode (ErrorObject (Code (Finite 404)) (StringMessage ''HTTP 404 (trace 14013)'')) 404
   \<and> connectMcpClient Inr
        (\<lambda>url hdrs clientName version.
           Inl (ErrorObject (Code (Finite 404)) (StringMessage ''HTTP 404 (trace 14013)'')))
        None ''x.test/mcp'' ''forest'' 1
      = (ResultError
           (auth (ErrorObject (Code (Finite 404)) (StringMessage ''HTTP 404 (trace 14013)'')))
          :: (unit, ConnectMcpClientError) Result)
   \<and> connectMcpClient Inr
        (\<lambda>url hdrs clientName version.
           Inl (ErrorObject (Code (Finite 404)) (StringMessage ''HTTP 404 (trace 14013)'')))
        None ''x.test/mcp'' ''forest'' 1
      \<noteq> (ResultError
           (not_found
              (ErrorObject (Code (Finite 404)) (StringMessage ''HTTP 404 (trace 14013)'')))
          :: (unit, ConnectMcpClientError) Result)"
  by (simp add: connectMcpClient_def normalizeAndValidateUrl_def withProtocol_def
      hasHttpScheme_def canonicalize_def createResultOk_def createResultError_def
      isUnauthorizedError_def toString_codes startsWith_def)

text \<open>
  C8. \<open>withProtocol\<close> puts \<^verbatim>\<open>https://\<close> before an input that does not start with
  \<^verbatim>\<open>http://\<close> or \<^verbatim>\<open>https://\<close> (in any letter case) and leaves the others as they
  are; what is parsed always has such a prefix. When parsing throws, the connection
  result is \<open>invalid_url\<close> with what was thrown. \<^verbatim>\<open>example.com/mcp\<close> becomes
  \<^verbatim>\<open>https://example.com/mcp\<close>.
\<close>

theorem url_normalization:
  "(\<not> hasHttpScheme input \<longrightarrow> withProtocol input = ''https://'' @ input)
   \<and> (hasHttpScheme input \<longrightarrow> withProtocol input = input)
   \<and> (hasHttpScheme input \<longleftrightarrow>
        (\<exists>scheme rest. input = scheme @ rest
           \<and> (map canonicalize scheme = ''HTTP://'' \<or> map canonicalize scheme = ''HTTPS://'')))
   \<and> hasHttpScheme (withProtocol input)
   \<and> (\<forall>u. parseUrl (withProtocol input) = Inr u \<longrightarrow>
        normalizeAndValidateUrl parseUrl input = ResultOk u)
   \<and> (\<forall>e. parseUrl (withProtocol input) = Inl e \<longrightarrow>
        normalizeAndValidateUrl parseUrl input = ResultError e
        \<and> connectMcpClient parseUrl connect hdrs input clientName version
            = ResultError (invalid_url e))
   \<and> withProtocol ''example.com/mcp'' = ''https://example.com/mcp''"
proof -
  have example: "withProtocol ''example.com/mcp'' = ''https://example.com/mcp''"
    by (simp add: withProtocol_def hasHttpScheme_def canonicalize_def startsWith_def)
  have parsed: "\<forall>u. parseUrl (withProtocol input) = Inr u \<longrightarrow>
        normalizeAndValidateUrl parseUrl input = ResultOk u"
    by (simp add: normalizeAndValidateUrl_def createResultOk_def)
  have invalid: "\<forall>e. parseUrl (withProtocol input) = Inl e \<longrightarrow>
        normalizeAndValidateUrl parseUrl input = ResultError e
        \<and> connectMcpClient parseUrl connect hdrs input clientName version
            = ResultError (invalid_url e)"
    by (simp add: normalizeAndValidateUrl_def connectMcpClient_def createResultError_def)
  have prepend: "\<not> hasHttpScheme input \<longrightarrow> withProtocol input = ''https://'' @ input"
    and keep: "hasHttpScheme input \<longrightarrow> withProtocol input = input"
    by (simp_all add: withProtocol_def)
  from prepend keep hasHttpScheme_iff [of input] hasHttpScheme_withProtocol [of input]
    parsed invalid example
  show ?thesis by (intro conjI)
qed

theorem url_normalization_witness:
  "withProtocol ''HTTP://x.test'' = ''HTTP://x.test''
   \<and> withProtocol ''ftp://x.test'' = ''https://ftp://x.test''
   \<and> connectMcpClient (\<lambda>s. if s = ''https://a b'' then Inl NonObject else Inr s)
        (\<lambda>url hdrs clientName version. Inr ()) None ''a b'' ''forest'' 1
      = ResultError (invalid_url NonObject)"
proof -
  have schemed: "hasHttpScheme ''HTTP://x.test''"
    and bare: "\<not> hasHttpScheme ''ftp://x.test''" "\<not> hasHttpScheme ''a b''"
    by (simp_all add: hasHttpScheme_def canonicalize_def startsWith_def)
  have "withProtocol ''HTTP://x.test'' = ''HTTP://x.test''"
    using url_normalization [of "''HTTP://x.test''", THEN conjunct2, THEN conjunct1] schemed
    by simp
  moreover have "withProtocol ''ftp://x.test'' = ''https://ftp://x.test''"
    using url_normalization [of "''ftp://x.test''", THEN conjunct1] bare(1)
    by simp
  moreover have "withProtocol ''a b'' = ''https://a b''"
    using url_normalization [of "''a b''", THEN conjunct1] bare(2)
    by simp
  then have "connectMcpClient (\<lambda>s. if s = ''https://a b'' then Inl NonObject else Inr s)
        (\<lambda>url hdrs clientName version. Inr ()) None ''a b'' ''forest'' 1
      = ResultError (invalid_url NonObject)"
    using url_normalization [of "''a b''"
        "\<lambda>s. if s = ''https://a b'' then Inl NonObject else Inr s"
        "\<lambda>url hdrs clientName version. Inr ()" None "''forest''" 1,
        THEN conjunct2, THEN conjunct2, THEN conjunct2, THEN conjunct2, THEN conjunct2,
        THEN conjunct1, rule_format, of NonObject, THEN conjunct2]
    by simp
  ultimately show ?thesis by (intro conjI)
qed

subsection \<open>Tool catalog fetcher\<close>

lemma getAllTools_answers:
  "answers srv h cursor ps \<Longrightarrow>
     getAllTools (listTools srv) h cursor =
       Some (Inr (concat (map tools ps)),
             h @ ListToolsCall cursor # map (\<lambda>p. ListToolsCall (nextCursor p)) (butlast ps))"
proof (induction ps arbitrary: h cursor)
  case Nil
  then show ?case by simp
next
  case (Cons p ps)
  from Cons.prems have call: "listTools srv h cursor = (Inr p, h @ [ListToolsCall cursor])"
    by (simp add: listTools_def)
  show ?case
  proof (cases "ps = []")
    case True
    with Cons.prems have "\<not> truthy (nextCursor p)" by simp
    with True call show ?thesis
      by (subst getAllTools.simps) simp
  next
    case False
    with Cons.prems have rest: "answers srv (h @ [ListToolsCall cursor]) (nextCursor p) ps"
      and cur: "truthy (nextCursor p)"
      by simp_all
    from Cons.IH [OF rest] False cur call show ?thesis
      by (subst getAllTools.simps) simp
  qed
qed

text \<open>A page whose next cursor is the empty string ends the fetch, like a page with none.\<close>

lemma getAllTools_empty_cursor:
  assumes "listToolsResponse srv h cursor = Inr \<lparr>tools = P, nextCursor = Some []\<rparr>"
  shows "getAllTools (listTools srv) h cursor = Some (Inr P, h @ [ListToolsCall cursor])"
  using assms by (subst getAllTools.simps) (simp add: listTools_def)

text \<open>
  C7. When the session answers the successive \<^verbatim>\<open>listTools\<close> calls with the pages
  \<open>ps\<close> (every page but the last with a non-empty next cursor, the last with none),
  \<open>getAllTools\<close> returns, and returns the tools of the pages concatenated in fetch
  order; the calls it has added to the history are exactly one \<^verbatim>\<open>listTools\<close> per page,
  the first with the starting cursor and each later one with the cursor of the page
  before. For three pages \<open>P1\<close>, \<open>P2\<close>, \<open>P3\<close> with cursors \<open>c1\<close>, \<open>c2\<close> and none,
  the result is \<open>P1 @ P2 @ P3\<close> after three calls.
\<close>

theorem getAllTools_concatenates_pages:
  "(answers srv h cursor ps \<longrightarrow>
      getAllTools (listTools srv) h cursor =
        Some (Inr (concat (map tools ps)),
              h @ map ListToolsCall (cursor # map nextCursor (butlast ps)))
      \<and> length (map ListToolsCall (cursor # map nextCursor (butlast ps))) = length ps)
   \<and> (answers srv [] None
         [\<lparr>tools = P1, nextCursor = Some c1\<rparr>, \<lparr>tools = P2, nextCursor = Some c2\<rparr>,
          \<lparr>tools = P3, nextCursor = None\<rparr>] \<longrightarrow>
      getAllTools (listTools srv) [] None =
        Some (Inr (P1 @ P2 @ P3),
              [ListToolsCall None, ListToolsCall (Some c1), ListToolsCall (Some c2)]))"
proof -
  have general: "getAllTools (listTools srv) h' cursor' =
        Some (Inr (concat (map tools ps')),
              h' @ map ListToolsCall (cursor' # map nextCursor (butlast ps')))"
    if "answers srv h' cursor' ps'" for h' cursor' ps'
    using getAllTools_answers [OF that] by (simp add: comp_def)
  have count: "length (map ListToolsCall (cursor # map nextCursor (butlast ps))) = length ps"
    if "answers srv h cursor ps"
    using that by (cases ps) simp_all
  have three: "getAllTools (listTools srv) [] None =
        Some (Inr (P1 @ P2 @ P3),
              [ListToolsCall None, ListToolsCall (Some c1), ListToolsCall (Some c2)])"
    if "answers srv [] None
         [\<lparr>tools = P1, nextCursor = Some c1\<rparr>, \<lparr>tools = P2, nextCursor = Some c2\<rparr>,
          \<lparr>tools = P3, nextCursor = None\<rparr>]"
    using general [OF that] by simp
  from general [of h cursor ps] count three show ?thesis
    by blast
qed

theorem getAllTools_concatenates_pages_witness:
  "getAllTools (listTools threePages) [] None =
     Some (Inr [''a'', ''b'', ''c'', ''d'', ''e''],
           [ListToolsCall None, ListToolsCall (Some ''c1''), ListToolsCall (Some ''c2'')])"
  using getAllTools_concatenates_pages
    [of threePages "[]" None
        "[\<lparr>tools = [''a'', ''b''], nextCursor = Some ''c1''\<rparr>,
          \<lparr>tools = [''c''], nextCursor = Some ''c2''\<rparr>,
          \<lparr>tools = [''d'', ''e''], nextCursor = None\<rparr>]"]
  by (simp add: threePages_def)

subsection \<open>Schema mapper\<close>

lemma convertProperties_map:
  "convertProperties String req fields' xs
     = fields' @ map (\<lambda>(key, p). propertyField String req key p) (objectEntries xs)"
  by (induction xs arbitrary: fields' rule: objectEntries.induct) simp_all

lemma objectEntries_append:
  "objectEntries (xs @ ys) = objectEntries xs @ objectEntries ys"
  by (induction xs rule: objectEntries.induct) simp_all

lemma convertProperties_nth:
  assumes "i < length props" and "props ! i = (key, ObjectSchema p)"
  shows "length (objectEntries (take i props)) < length (convertProperties String req [] props)
         \<and> convertProperties String req [] props ! length (objectEntries (take i props))
           = propertyField String req key p"
proof -
  have "props = take i props @ (key, ObjectSchema p) # drop (Suc i) props"
    using assms by (metis id_take_nth_drop)
  then have "objectEntries props
      = objectEntries (take i props) @ (key, p) # objectEntries (drop (Suc i) props)"
    by (metis objectEntries_append objectEntries.simps(2))
  then show ?thesis
    by (simp add: convertProperties_map nth_append)
qed


lemma jsonSchemaTypeToFieldType_not_options:
  "jsonSchemaTypeToFieldType t \<noteq> ''options''"
  by (simp add: jsonSchemaTypeToFieldType_def Let_def)

text \<open>
  C9. In a schema of type \<^verbatim>\<open>object\<close>, the property at position \<open>i\<close> that declares
  the non-empty enum \<open>vs\<close> yields a field (at the position that counts the properties
  before it that are not boolean schemas) whose type is \<^verbatim>\<open>options\<close> and whose options
  are, in the order of \<open>vs\<close>, one pair of the stringified value and the value itself.
  The fields follow the order of the properties, and \<^verbatim>\<open>options\<close> is not a type the
  primitive mapping ever gives: the enum overrides it.
\<close>

theorem enum_becomes_options:
  assumes "schemaType schema = Some (TypeName ''object'')"
    and "properties schema = Some props"
    and "i < length props"
    and "props ! i = (key, ObjectSchema p)"
    and "schemaEnum p = Some vs"
    and "vs \<noteq> []"
  shows
    "length (objectEntries (take i props))
       < length (convertJsonSchemaToResourceMapperFields String schema req)
     \<and> fieldId (convertJsonSchemaToResourceMapperFields String schema req
                  ! length (objectEntries (take i props))) = key
     \<and> fieldType (convertJsonSchemaToResourceMapperFields String schema req
                  ! length (objectEntries (take i props))) = ''options''
     \<and> options (convertJsonSchemaToResourceMapperFields String schema req
                  ! length (objectEntries (take i props)))
         = Some (map (\<lambda>v. (String v, v)) vs)
     \<and> map fieldId (convertJsonSchemaToResourceMapperFields String schema req)
         = map fst (objectEntries props)
     \<and> (\<forall>t. jsonSchemaTypeToFieldType t \<noteq> ''options'')"
proof -
  have conv: "convertJsonSchemaToResourceMapperFields String schema req
      = convertProperties String req [] props"
    using assms(1,2) by (simp add: convertJsonSchemaToResourceMapperFields_def)
  have field: "fieldId (propertyField String req k q) = k" for k and q :: "'a JSONSchema7"
    by (simp add: propertyField_def Let_def split: option.splits)
  have ids: "map fieldId (convertProperties String req [] props) = map fst (objectEntries props)"
    by (simp add: convertProperties_map field case_prod_unfold comp_def)
  have opt: "fieldType (propertyField String req key p) = ''options''
      \<and> options (propertyField String req key p) = Some (map (\<lambda>v. (String v, v)) vs)"
    using assms(5,6) by (simp add: propertyField_def Let_def)
  from convertProperties_nth [OF assms(3,4), of String req] conv field [of key p] opt ids
    jsonSchemaTypeToFieldType_not_options
  show ?thesis by simp
qed

theorem enum_becomes_options_witness:
  "convertJsonSchemaToResourceMapperFields id
     (JSONSchema7 (Some (TypeName ''object''))
        (Some [(''flag'', BooleanSchema True),
               (''color'', ObjectSchema
                  (JSONSchema7 (Some (TypeName ''boolean'')) None None
                     (Some [''red'', ''green'']) None))])
        None None None) []
     ! 0
   = \<lparr>fieldId = ''color'', displayName = ''color'', fieldType = ''options'',
      fieldRequired = False, defaultMatch = False, canBeUsedToMatch = False, display = True,
      defaultValue = None, options = Some [(''red'', ''red''), (''green'', ''green'')]\<rparr>"
proof -
  let ?p = "JSONSchema7 (Some (TypeName ''boolean'')) None None (Some [''red'', ''green'']) None"
  let ?props = "[(''flag'', BooleanSchema True), (''color'', ObjectSchema ?p)]"
  let ?schema = "JSONSchema7 (Some (TypeName ''object'')) (Some ?props) None None None"
  let ?f = "convertJsonSchemaToResourceMapperFields id ?schema [] ! 0"
  have "fieldId ?f = ''color'' \<and> fieldType ?f = ''options''
      \<and> options ?f = Some [(''red'', ''red''), (''green'', ''green'')]"
    using enum_becomes_options [of ?schema ?props 1 "''color''" ?p "[''red'', ''green'']" id "[]"]
    by simp
  moreover have "displayName ?f = ''color'' \<and> fieldRequired ?f = False
      \<and> defaultMatch ?f = False \<and> canBeUsedToMatch ?f = False \<and> display ?f = True
      \<and> defaultValue ?f = None"
    by (simp add: convertJsonSchemaToResourceMapperFields_def propertyField_def
        jsonSchemaTypeToFieldType_def Let_def)
  ultimately show ?thesis
    by (intro ResourceMapperField.equality) simp_all
qed

subsection \<open>Session lifetime and discovery failures\<close>

lemma demo_endpoint:
  "getAuthHeadersAndEndpoint demoCredentials ''bearerAuth''
     = \<lparr>headers = Some [(''Authorization'', ''Bearer abc'')],
        endpointUrl = Some ''https://x.test/mcp''\<rparr>"
  by (simp add: getAuthHeadersAndEndpoint_def demoCredentials_def Let_def trimOrEmpty_def
      trim_def isWhiteSpace_def endsWith_def)

lemma demo_url:
  "normalizeAndValidateUrl Inr ''https://x.test/mcp'' = ResultOk ''https://x.test/mcp''"
  by (simp add: normalizeAndValidateUrl_def withProtocol_def hasHttpScheme_def
      canonicalize_def startsWith_def createResultOk_def)

text \<open>
  C1. Every session that is opened is closed before the operation returns. This fails
  for \<open>execute\<close>: with valid bearer credentials, a server that connects and one input
  item, it returns the item and the only call on the session is the \<^verbatim>\<open>callTool\<close>;
  the session is never closed. With the same credentials and server, \<open>getTools\<close>
  closes the session after its \<^verbatim>\<open>listTools\<close> call.
\<close>

theorem execute_leaves_session_open:
  "execute demoCredentials Inr (\<lambda>url hdrs clientName version. Inr echoServer) demoNode
       ''bearerAuth'' ''manual'' 1 demoHost
     = (Returned [[''{}'']], Some [CallToolCall ''listUsers''])
   \<and> CloseCall \<notin> set [CallToolCall ''listUsers'']
   \<and> getTools demoCredentials Inr (\<lambda>url hdrs clientName version. Inr echoServer) demoNode
       ''bearerAuth'' None None
     = (Returned \<lparr>results = [], paginationToken = None\<rparr>,
        Some [ListToolsCall None, CloseCall])"
proof -
  have "execute demoCredentials Inr (\<lambda>url hdrs clientName version. Inr echoServer) demoNode
       ''bearerAuth'' ''manual'' 1 demoHost
     = (Returned [[''{}'']], Some [CallToolCall ''listUsers''])"
    by (simp add: execute_def demo_endpoint connectMcpClient_def demo_url createResultOk_def
        callTool_def echoServer_def demoHost_def demoNode_def)
  moreover have "getTools demoCredentials Inr (\<lambda>url hdrs clientName version. Inr echoServer)
       demoNode ''bearerAuth'' None None
     = (Returned \<lparr>results = [], paginationToken = None\<rparr>,
        Some [ListToolsCall None, CloseCall])"
    by (simp add: getTools_def demo_endpoint connectMcpClient_def demo_url createResultOk_def
        listTools_def close_def finallyClose_def echoServer_def demoNode_def)
  ultimately show ?thesis by simp
qed

lemma finallyClose_history: "finallyClose srv h out = (out', h') \<Longrightarrow> h' = h @ [CloseCall]"
  by (auto simp: finallyClose_def close_def split: option.splits)

lemma getTools_closes_session:
  assumes "getTools getCredentials parseUrl connect node authentication filter' token'
             = (out, Some h)"
  shows "h = [ListToolsCall token', CloseCall]"
  using assms
  by (auto simp: getTools_def Let_def listTools_def map_prod_def
      split: option.splits if_splits Result.splits sum.splits prod.splits
      dest!: finallyClose_history)

lemma executeItems_never_closes:
  "executeItems host srv inputMode items h returnData = (out, h') \<Longrightarrow>
     CloseCall \<notin> set h \<Longrightarrow> CloseCall \<notin> set h'"
proof (induction items arbitrary: h returnData)
  case Nil
  then show ?case by simp
next
  case (Cons i items)
  show ?case
    using Cons.prems
    by (auto simp: Let_def callTool_def split: sum.splits if_splits dest: Cons.IH)
qed

lemma execute_never_closes:
  assumes "execute getCredentials parseUrl connect node authentication inputMode itemCount host
             = (out, Some h)"
  shows "CloseCall \<notin> set h"
  using assms
  by (auto simp: execute_def Let_def map_prod_def
      split: option.splits if_splits Result.splits prod.splits
      dest: executeItems_never_closes)


lemma getAllTools_history_aux:
  fixes srv :: "('tool, 'args, 'res) McpServer"
    and y :: "(thrown + 'tool list) \<times> event list"
  assumes "getAllTools clientListTools h cursor = Some y"
  shows "clientListTools = listTools srv \<longrightarrow> (\<exists>cs. snd y = h @ map ListToolsCall cs)"
proof (rule getAllTools.raw_induct
    [where P = "\<lambda>f h cursor y. f = listTools srv \<longrightarrow> (\<exists>cs. snd y = h @ map ListToolsCall cs)",
      OF _ assms],
    goal_cases)
  case (1 rec f h cursor y)
  show ?case
  proof
    assume f: "f = listTools srv"
    obtain r h1 where call: "f h cursor = (r, h1)"
      by (cases "f h cursor")
    with f have h1: "h1 = h @ map ListToolsCall [cursor]"
      by (simp add: listTools_def)
    show "\<exists>cs. snd y = h @ map ListToolsCall cs"
    proof (cases r)
      case (Inl e)
      with 1(2) call h1 have "snd y = h @ map ListToolsCall [cursor]" by auto
      then show ?thesis by blast
    next
      case (Inr page)
      show ?thesis
      proof (cases "truthy (nextCursor page)")
        case False
        with 1(2) call Inr h1 have "snd y = h @ map ListToolsCall [cursor]" by auto
        then show ?thesis by blast
      next
        case True
        with 1(2) call Inr obtain rest h2 where
          rec: "rec f h1 (nextCursor page) = Some (rest, h2)"
          and y: "(case rest of Inl error \<Rightarrow> Some (Inl error, h2)
                   | Inr others \<Rightarrow> Some (Inr (tools page @ others), h2)) = Some y"
          by (auto simp: bind_eq_Some_conv)
        from y have same: "snd y = h2"
          by (cases rest) auto
        from 1(1) [OF rec] f obtain cs where "h2 = h1 @ map ListToolsCall cs"
          by auto
        with h1 same have "snd y = h @ map ListToolsCall (cursor # cs)"
          by simp
        then show ?thesis by blast
      qed
    qed
  qed
qed

lemma getAllTools_history:
  "getAllTools (listTools srv) h cursor = Some (fetched, h') \<Longrightarrow>
     \<exists>cs. h' = h @ map ListToolsCall cs"
  using getAllTools_history_aux [of "listTools srv" h cursor "(fetched, h')" srv] by simp

lemma with_session_eq: "map_prod id Some p = (out, Some h) \<longleftrightarrow> p = (out, h)"
  by (cases p) auto

lemma getToolParameters_closes_session:
  assumes "getToolParameters String getCredentials parseUrl connect node authentication toolId
             = Some (out, Some h)"
  shows "\<exists>cs. h = map ListToolsCall cs @ [CloseCall]"
proof -
  show ?thesis
    using assms unfolding getToolParameters_def Let_def
    by (auto simp: bind_eq_Some_conv with_session_eq
        split: if_splits option.splits Result.splits
        dest!: getAllTools_history finallyClose_history)
qed

text \<open>
  C2, as stated, fails for the schema lookup: with valid bearer credentials and a
  connection attempt that is refused with status 401, the connector reports \<open>auth\<close>
  and \<open>getToolParameters\<close> returns the empty field list.
\<close>

theorem getToolParameters_swallows_connection_failure:
  "connectMcpClient Inr
       (\<lambda>url hdrs clientName version. Inl (ErrorObject (Code (Finite 401)) NoMessage))
       (Some [(''Authorization'', ''Bearer abc'')]) ''https://x.test/mcp'' ''forest'' 1
     = (ResultError (auth (ErrorObject (Code (Finite 401)) NoMessage))
         :: ((unit McpTool, unit, unit) McpServer, ConnectMcpClientError) Result)
   \<and> getToolParameters id demoCredentials Inr
       (\<lambda>url hdrs clientName version. Inl (ErrorObject (Code (Finite 401)) NoMessage)
          :: thrown + (string McpTool, unit, unit) McpServer)
       demoNode ''bearerAuth'' ''listUsers''
     = Some (Returned [], None)"
  by (simp add: getToolParameters_def demo_endpoint connectMcpClient_def demo_url
      createResultError_def isUnauthorizedError_def demoNode_def)

text \<open>
  C2, amended. When the resolved endpoint is absent (or empty), both discovery
  operations return their empty result without opening a session. When the endpoint
  is there and connecting fails with \<open>error\<close>, \<open>getTools\<close> throws the operation
  error made from \<open>error\<close>, while \<open>getToolParameters\<close> returns the empty field list.
\<close>

theorem discovery_failure_handling:
  fixes connect :: "'url \<Rightarrow> (string \<times> string) list option \<Rightarrow> string \<Rightarrow> string
                      \<Rightarrow> thrown + ('v McpTool, 'args, 'res) McpServer"
  shows
  "(\<not> truthy (endpointUrl (getAuthHeadersAndEndpoint getCredentials authentication)) \<longrightarrow>
      getTools getCredentials parseUrl connect node authentication filter' token'
        = (Returned \<lparr>results = [], paginationToken = None\<rparr>, None)
      \<and> getToolParameters String getCredentials parseUrl connect node authentication toolId
        = Some (Returned [], None))
   \<and> (\<forall>url error.
        endpointUrl (getAuthHeadersAndEndpoint getCredentials authentication) = Some url
        \<and> url \<noteq> []
        \<and> connectMcpClient parseUrl connect
             (headers (getAuthHeadersAndEndpoint getCredentials authentication)) url
             (nodeType node) (typeVersion node) = ResultError error
        \<longrightarrow> getTools getCredentials parseUrl connect node authentication filter' token'
              = (ThrewOperationError (mapToNodeOperationError error), None)
            \<and> getToolParameters String getCredentials parseUrl connect node authentication toolId
              = Some (Returned [], None))"
proof -
  let ?R = "getAuthHeadersAndEndpoint getCredentials authentication"
  have incomplete: "getTools getCredentials parseUrl connect node authentication filter' token'
        = (Returned \<lparr>results = [], paginationToken = None\<rparr>, None)
      \<and> getToolParameters String getCredentials parseUrl connect node authentication toolId
        = Some (Returned [], None)"
    if "\<not> truthy (endpointUrl ?R)"
    using that by (cases "endpointUrl ?R") (simp_all add: getTools_def getToolParameters_def)
  have failure: "getTools getCredentials parseUrl connect node authentication filter' token'
              = (ThrewOperationError (mapToNodeOperationError error), None)
            \<and> getToolParameters String getCredentials parseUrl connect node authentication toolId
              = Some (Returned [], None)"
    if "endpointUrl ?R = Some url" "url \<noteq> []"
      "connectMcpClient parseUrl connect (headers ?R) url (nodeType node) (typeVersion node)
         = ResultError error"
    for url error
    using that by (simp add: getTools_def getToolParameters_def)
  from incomplete failure show ?thesis by blast
qed

theorem discovery_failure_handling_witness:
  "getTools demoCredentials Inr
       (\<lambda>url hdrs clientName version. Inl (ErrorObject (Code (Finite 401)) NoMessage)
          :: thrown + (string McpTool, unit, unit) McpServer)
       demoNode ''bearerAuth'' None None
     = (ThrewOperationError
          (NodeOperationError
             ''Could not connect to your Forest MCP server. Authentication failed.''
             (Some (ErrorObject (Code (Finite 401)) NoMessage)) None), None)
   \<and> getTools (\<lambda>credentialType. Inl NonObject) Inr
       (\<lambda>url hdrs clientName version. Inl NonObject
          :: thrown + (string McpTool, unit, unit) McpServer)
       demoNode ''bearerAuth'' None None
     = (Returned \<lparr>results = [], paginationToken = None\<rparr>, None)"
proof -
  let ?connect = "\<lambda>url hdrs clientName version. Inl (ErrorObject (Code (Finite 401)) NoMessage)
          :: thrown + (string McpTool, unit, unit) McpServer"
  have failed: "connectMcpClient Inr ?connect
      (headers (getAuthHeadersAndEndpoint demoCredentials ''bearerAuth''))
      ''https://x.test/mcp'' (nodeType demoNode) (typeVersion demoNode)
      = ResultError (auth (ErrorObject (Code (Finite 401)) NoMessage))"
    by (simp add: connectMcpClient_def demo_url createResultError_def isUnauthorizedError_def)
  have "getTools demoCredentials Inr ?connect demoNode ''bearerAuth'' None None
     = (ThrewOperationError
          (mapToNodeOperationError (auth (ErrorObject (Code (Finite 401)) NoMessage))), None)"
    using discovery_failure_handling
      [of demoCredentials "''bearerAuth''" Inr ?connect demoNode None None id "''listUsers''",
        THEN conjunct2, rule_format, of "''https://x.test/mcp''"
          "auth (ErrorObject (Code (Finite 401)) NoMessage)"]
      failed
    by (simp add: demo_endpoint)
  moreover have "getTools (\<lambda>credentialType. Inl NonObject) Inr
       (\<lambda>url hdrs clientName version. Inl NonObject
          :: thrown + (string McpTool, unit, unit) McpServer)
       demoNode ''bearerAuth'' None None
     = (Returned \<lparr>results = [], paginationToken = None\<rparr>, None)"
    using discovery_failure_handling
      [of "\<lambda>credentialType. Inl NonObject" "''bearerAuth''" Inr
        "\<lambda>url hdrs clientName version. Inl NonObject
          :: thrown + (string McpTool, unit, unit) McpServer"
        demoNode None None id "''listUsers''", THEN conjunct1]
    by (simp add: getAuthHeadersAndEndpoint_def emptyEndpoint_def)
  ultimately show ?thesis by simp
qed

end
